theory Spec2Isabelle
  imports Complex_Main "HOL-Library.Multiset"
begin

section \<open>Values of the host language\<close>

text \<open>
  The page \<^verbatim>\<open>src/pages/Index.tsx\<close> reads the body of the service's reply with
  \<^verbatim>\<open>res.json()\<close> and treats it as \<^verbatim>\<open>any\<close>. The model keeps such values as
  they are at run time: the values \<^verbatim>\<open>JSON.parse\<close> can build, \<^verbatim>\<open>undefined\<close>
  (what reading a missing property gives) and a built-in function object (what
  reading a method of a prototype gives).

  A number is the exact mathematical value of the double, or one of the three
  non-finite doubles.
\<close>

datatype jsnum = Fin rat | PosInfinity | NegInfinity | NaN

datatype jsval =
    JUndefined
  | JNull
  | JBool bool
  | JNum jsnum
  | JStr string
  | JArr "jsval list"
  | JObj "(string \<times> jsval) list"
  | JFunction

datatype error = TypeError | SyntaxError | NetworkError

text \<open>
  What the language leaves to the engine, the locale or the clock is a parameter:
  the text of a number (\<^verbatim>\<open>Number::toString\<close>), the text of a built-in function,
  \<^verbatim>\<open>Date.parse\<close> (\<open>None\<close> is \<^verbatim>\<open>NaN\<close>), and the two locale renderings of
  a time value (\<open>None\<close> is the time value of an invalid date).
\<close>

record host =
  numberToString :: "jsnum \<Rightarrow> string"
  functionToString :: string
  dateParse :: "string \<Rightarrow> int option"
  toLocaleDateString :: "int option \<Rightarrow> string"
  toLocaleTimeString :: "int option \<Rightarrow> string"

definition bind :: "error + 'a \<Rightarrow> ('a \<Rightarrow> error + 'b) \<Rightarrow> error + 'b" where
  "bind m f = (case m of Inl e \<Rightarrow> Inl e | Inr x \<Rightarrow> f x)"

fun sequence :: "(error + 'a) list \<Rightarrow> error + 'a list" where
  "sequence [] = Inr []"
| "sequence (m # ms) = bind m (\<lambda>x. bind (sequence ms) (\<lambda>xs. Inr (x # xs)))"

text \<open>\<^verbatim>\<open>ToBoolean\<close>: the operand test of \<^verbatim>\<open>||\<close>, \<^verbatim>\<open>!\<close> and \<^verbatim>\<open>? :\<close>.\<close>

fun truthy :: "jsval \<Rightarrow> bool" where
  "truthy JUndefined = False"
| "truthy JNull = False"
| "truthy (JBool b) = b"
| "truthy (JNum (Fin x)) = (x \<noteq> 0)"
| "truthy (JNum NaN) = False"
| "truthy (JNum _) = True"
| "truthy (JStr s) = (s \<noteq> [])"
| "truthy (JArr _) = True"
| "truthy (JObj _) = True"
| "truthy JFunction = True"

text \<open>\<^verbatim>\<open>a || b\<close> and \<^verbatim>\<open>a ?? b\<close> on values.\<close>

definition or_else :: "jsval \<Rightarrow> jsval \<Rightarrow> jsval" where
  "or_else a b = (if truthy a then a else b)"

definition nullish :: "jsval \<Rightarrow> bool" where
  "nullish v = (v = JUndefined \<or> v = JNull)"

definition coalesce :: "jsval \<Rightarrow> jsval \<Rightarrow> jsval" where
  "coalesce a b = (if nullish a then b else a)"

text \<open>
  \<^verbatim>\<open>v.k\<close> for the property names this page reads (\<^verbatim>\<open>articles\<close>,
  \<^verbatim>\<open>summary\<close>, \<^verbatim>\<open>title\<close>, \<^verbatim>\<open>sentiment\<close>, \<^verbatim>\<open>published\<close>,
  \<^verbatim>\<open>polarity\<close>, \<^verbatim>\<open>explanation\<close>, \<^verbatim>\<open>link\<close>, \<^verbatim>\<open>positive\<close>,
  \<^verbatim>\<open>negative\<close>, \<^verbatim>\<open>neutral\<close>). Reading a property of \<^verbatim>\<open>undefined\<close> or
  \<^verbatim>\<open>null\<close> throws. An object built by \<^verbatim>\<open>JSON.parse\<close> has its members as own
  properties, each name once; no prototype defines one of these names, except that
  \<^verbatim>\<open>String.prototype.link\<close> is a method.
\<close>

fun get :: "jsval \<Rightarrow> string \<Rightarrow> error + jsval" where
  "get JUndefined k = Inl TypeError"
| "get JNull k = Inl TypeError"
| "get (JObj ps) k = Inr (case map_of ps k of Some v \<Rightarrow> v | None \<Rightarrow> JUndefined)"
| "get (JStr s) k = Inr (if k = ''link'' then JFunction else JUndefined)"
| "get v k = Inr JUndefined"

fun join :: "string \<Rightarrow> string list \<Rightarrow> string" where
  "join sep [] = []"
| "join sep [x] = x"
| "join sep (x # y # ys) = x @ sep @ join sep (y # ys)"

text \<open>
  \<^verbatim>\<open>ToString\<close>, as \<^verbatim>\<open>String(v)\<close>, a template literal and \<^verbatim>\<open>Array.prototype.join\<close>
  apply it. An array is joined with commas, \<^verbatim>\<open>undefined\<close> and \<^verbatim>\<open>null\<close> elements
  giving the empty text. A parsed object has no callable \<^verbatim>\<open>toString\<close> of its own:
  with a member of that name the conversion finds no method that returns a
  primitive and throws, without one it reaches \<^verbatim>\<open>Object.prototype.toString\<close>.
\<close>

fun ToString :: "host \<Rightarrow> jsval \<Rightarrow> error + string" where
  "ToString h JUndefined = Inr ''undefined''"
| "ToString h JNull = Inr ''null''"
| "ToString h (JBool b) = Inr (if b then ''true'' else ''false'')"
| "ToString h (JNum n) = Inr (numberToString h n)"
| "ToString h (JStr s) = Inr s"
| "ToString h (JArr vs) =
     bind (sequence (map (\<lambda>v. if v = JUndefined \<or> v = JNull then Inr [] else ToString h v) vs))
       (\<lambda>ss. Inr (join '','' ss))"
| "ToString h (JObj ps) =
     (if ''toString'' \<in> set (map fst ps) then Inl TypeError else Inr ''[object Object]'')"
| "ToString h JFunction = Inr (functionToString h)"

section \<open>Numbers and dates\<close>

text \<open>
  \<^verbatim>\<open>Number.prototype.toFixed(3)\<close>. A non-finite number is rendered by
  \<^verbatim>\<open>Number::toString\<close>. Otherwise the sign is split off; a magnitude of
  \<open>10\<^sup>2\<^sup>1\<close> or more is again left to \<^verbatim>\<open>Number::toString\<close>; below it the
  digits are those of the integer \<open>n\<close> nearest to a thousand times the magnitude
  (the larger one of two equally near), padded with zeros to four digits, with the
  point before the last three.
\<close>

definition digit :: "nat \<Rightarrow> char" where
  "digit d = char_of (48 + d)"

fun decimal :: "nat \<Rightarrow> string" where
  "decimal n = (if n < 10 then [digit n] else decimal (n div 10) @ [digit (n mod 10)])"

definition fixed3 :: "rat \<Rightarrow> string" where
  "fixed3 x =
     (let n = nat \<lfloor>x * 1000 + 1 / 2\<rfloor>;
          m = decimal n;
          k = length m;
          m = (if k \<le> 3 then replicate (4 - k) CHR ''0'' @ m else m);
          k = length m
      in take (k - 3) m @ ''.'' @ drop (k - 3) m)"

fun toFixed3 :: "host \<Rightarrow> jsnum \<Rightarrow> string" where
  "toFixed3 h (Fin x) =
     (let s = (if x < 0 then ''-'' else []);
          x = (if x < 0 then - x else x)
      in s @ (if 10 ^ 21 \<le> x then numberToString h (Fin x) else fixed3 x))"
| "toFixed3 h n = numberToString h n"

text \<open>
  A \<^verbatim>\<open>Date\<close> object is its time value: milliseconds since the epoch, or
  \<^verbatim>\<open>NaN\<close> (\<open>None\<close>) for an invalid date.
\<close>

datatype Date = Date (getTime: "int option")

text \<open>\<^verbatim>\<open>TimeClip\<close>: out of range or not finite is \<^verbatim>\<open>NaN\<close>, else the fraction is cut off.\<close>

fun TimeClip :: "jsnum \<Rightarrow> int option" where
  "TimeClip (Fin x) =
     (if 8640000000000000 < \<bar>x\<bar> then None
      else Some (if 0 \<le> x then \<lfloor>x\<rfloor> else - \<lfloor>- x\<rfloor>))"
| "TimeClip n = None"

text \<open>
  \<^verbatim>\<open>new Date(v)\<close>: a string is parsed; a number, boolean, \<^verbatim>\<open>null\<close> or
  \<^verbatim>\<open>undefined\<close> is converted to a number and clipped; an array, object or
  function is first converted to a primitive, which is its text, and parsed.
\<close>

fun newDate :: "host \<Rightarrow> jsval \<Rightarrow> error + Date" where
  "newDate h (JStr s) = Inr (Date (dateParse h s))"
| "newDate h (JNum n) = Inr (Date (TimeClip n))"
| "newDate h (JBool b) = Inr (Date (Some (if b then 1 else 0)))"
| "newDate h JNull = Inr (Date (Some 0))"
| "newDate h JUndefined = Inr (Date None)"
| "newDate h v = bind (ToString h v) (\<lambda>s. Inr (Date (dateParse h s)))"

section \<open>Data model\<close>

text \<open>
  \<^verbatim>\<open>type SentimentType = "positive" | "negative" | "neutral" | null\<close>, and the
  value each member is at run time.
\<close>

datatype SentimentType = Positive | Negative | Neutral | Null

fun js_of :: "SentimentType \<Rightarrow> jsval" where
  "js_of Positive = JStr ''positive''"
| "js_of Negative = JStr ''negative''"
| "js_of Neutral = JStr ''neutral''"
| "js_of Null = JNull"

text \<open>
  \<^verbatim>\<open>interface AnalysisResult\<close>. The interface declares \<^verbatim>\<open>headline: string\<close>,
  \<^verbatim>\<open>sentiment: SentimentType\<close>, \<^verbatim>\<open>explanation: string\<close> and
  \<^verbatim>\<open>link?: string\<close>, but the records are filled from \<^verbatim>\<open>any\<close> values, and
  \<^verbatim>\<open>as SentimentType\<close> is erased by the compiler: a field holds whatever value
  was stored. \<open>declared\<close> says that a record has the declared types.
\<close>

record AnalysisResult =
  headline :: jsval
  sentiment :: jsval
  timestamp :: Date
  explanation :: jsval
  link :: jsval

definition is_string :: "jsval \<Rightarrow> bool" where
  "is_string v = (case v of JStr s \<Rightarrow> True | _ \<Rightarrow> False)"

definition declared :: "AnalysisResult \<Rightarrow> bool" where
  "declared r =
     (is_string (headline r) \<and> sentiment r \<in> set (map js_of [Positive, Negative, Neutral, Null])
      \<and> is_string (explanation r) \<and> (link r = JUndefined \<or> is_string (link r)))"

record Summary =
  positive :: jsval
  negative :: jsval
  neutral :: jsval

section \<open>Response normalisation\<close>

text \<open>
  The callback of \<^verbatim>\<open>articles.map\<close> in \<^verbatim>\<open>analyzeHeadline\<close>. \<open>now\<close> is what the
  system clock reads while this article is processed (the value of
  \<^verbatim>\<open>new Date()\<close> there).
\<close>

definition polarityText :: "host \<Rightarrow> jsval \<Rightarrow> error + string" where
  "polarityText h p =
     (case p of JNum n \<Rightarrow> Inr (toFixed3 h n)
      | _ \<Rightarrow> ToString h (coalesce p (JStr [])))"

definition mapArticle :: "host \<Rightarrow> int \<Rightarrow> jsval \<Rightarrow> error + AnalysisResult" where
  "mapArticle h now a =
     bind (get a ''sentiment'') (\<lambda>s.
     bind (get a ''published'') (\<lambda>p.
     bind (if truthy p then newDate h p else Inr (Date (Some now))) (\<lambda>ts.
     bind (get a ''explanation'') (\<lambda>e.
     bind (if truthy e then Inr e
           else bind (get a ''polarity'') (\<lambda>pol.
                bind (polarityText h pol) (\<lambda>t. Inr (JStr (''Polarity score: '' @ t))))) (\<lambda>ex.
     bind (get a ''title'') (\<lambda>title.
     bind (get a ''link'') (\<lambda>lnk.
       Inr \<lparr>headline = title, sentiment = or_else s (JStr ''neutral''), timestamp = ts,
            explanation = ex, link = lnk\<rparr>)))))))"

text \<open>
  \<^verbatim>\<open>articles.map(...)\<close>: the articles in order; \<open>clock i\<close> is the reading of
  the system clock while article \<open>i\<close> is processed. The first exception ends the
  loop.
\<close>

fun mapArticles :: "host \<Rightarrow> (nat \<Rightarrow> int) \<Rightarrow> nat \<Rightarrow> jsval list \<Rightarrow> error + AnalysisResult list" where
  "mapArticles h clock i [] = Inr []"
| "mapArticles h clock i (a # as) =
     bind (mapArticle h (clock i) a) (\<lambda>r.
     bind (mapArticles h clock (Suc i) as) (\<lambda>rs. Inr (r # rs)))"

text \<open>
  \<^verbatim>\<open>(data.articles || []) as any[]\<close> followed by \<^verbatim>\<open>.map\<close>: only an array has
  a callable \<^verbatim>\<open>map\<close>.
\<close>

definition normalizeArticles :: "host \<Rightarrow> (nat \<Rightarrow> int) \<Rightarrow> jsval \<Rightarrow> error + AnalysisResult list" where
  "normalizeArticles h clock data =
     bind (get data ''articles'') (\<lambda>v.
       case or_else v (JArr []) of
         JArr as \<Rightarrow> mapArticles h clock 0 as
       | _ \<Rightarrow> Inl TypeError)"

text \<open>
  Articles on which the callback cannot throw: objects whose \<^verbatim>\<open>published\<close> and
  \<^verbatim>\<open>polarity\<close> members, if present, are not arrays, objects or functions.
\<close>

definition primitive :: "jsval \<Rightarrow> bool" where
  "primitive v = (case v of JArr vs \<Rightarrow> False | JObj ps \<Rightarrow> False | JFunction \<Rightarrow> False | _ \<Rightarrow> True)"

definition plainArticle :: "jsval \<Rightarrow> bool" where
  "plainArticle a =
     (case a of
        JObj ps \<Rightarrow>
          (case map_of ps ''published'' of None \<Rightarrow> True | Some p \<Rightarrow> primitive p) \<and>
          (case map_of ps ''polarity'' of None \<Rightarrow> True | Some p \<Rightarrow> primitive p)
      | _ \<Rightarrow> False)"

section \<open>Client state and the query\<close>

text \<open>
  The state variables of the component \<^verbatim>\<open>Index\<close>. The text of the input box
  (\<^verbatim>\<open>headline\<close> in the source) is \<open>headlineInput\<close> here, the name
  \<open>headline\<close> being the field of a result.
\<close>

datatype SortBy = SortDate | SortTime | SortSentiment

datatype FilterBy = All | Only SentimentType

record State =
  headlineInput :: string
  results :: "AnalysisResult list"
  sortBy :: SortBy
  filterBy :: FilterBy
  isLoading :: bool
  errorMsg :: "string option"
  summary :: "Summary option"

text \<open>The body of the request, and what the awaited calls give: a value or a rejection.\<close>

record Request =
  query :: string
  limit :: nat

record Response =
  res_ok :: bool
  res_text :: "error + string"
  res_json :: "error + jsval"

text \<open>
  \<^verbatim>\<open>String.prototype.trim\<close> on a string of code units below 256: tab, line feed,
  vertical tab, form feed, carriage return, space and no-break space are removed at
  both ends.
\<close>

definition white :: "char \<Rightarrow> bool" where
  "white c = (of_char c \<in> {9, 10, 11, 12, 13, 32, 160 :: nat})"

definition trim :: "string \<Rightarrow> string" where
  "trim s = rev (dropWhile white (rev (dropWhile white s)))"

definition backendErrorMsg :: string where
  "backendErrorMsg = ''Backend returned an error. Check the Flask console.''"

definition unreachableMsg :: string where
  "unreachableMsg = ''Could not reach the backend. Is python app.py running on port 5000?''"

text \<open>
  \<^verbatim>\<open>analyzeHeadline\<close> up to \<^verbatim>\<open>await fetch(...)\<close>: the state it leaves and the
  request it sends, if any.
\<close>

definition analyzeHeadline_begin :: "State \<Rightarrow> State \<times> Request option" where
  "analyzeHeadline_begin s =
     (let q = trim (headlineInput s)
      in if q = [] then (s, None)
         else (s\<lparr>isLoading := True, errorMsg := None\<rparr>, Some \<lparr>query = q, limit = 10\<rparr>))"

text \<open>
  The \<^verbatim>\<open>try\<close> block once the request has settled; \<open>fetched\<close> is what
  \<^verbatim>\<open>await fetch(...)\<close> gives. Every write to the state comes after the last
  operation of its path that can throw (reading the summary cannot throw once the
  articles were read, see \<open>adoptSummary_returns\<close>), so an exception leaves the
  state as it was on entry.
\<close>

definition adoptSummary :: "jsval \<Rightarrow> error + Summary option" where
  "adoptSummary data =
     bind (get data ''summary'') (\<lambda>sm.
       if truthy sm then
         bind (get sm ''positive'') (\<lambda>p.
         bind (get sm ''negative'') (\<lambda>n.
         bind (get sm ''neutral'') (\<lambda>u.
           Inr (Some \<lparr>positive = coalesce p (JNum (Fin 0)), negative = coalesce n (JNum (Fin 0)),
                      neutral = coalesce u (JNum (Fin 0))\<rparr>))))
       else Inr None)"

definition tryBlock :: "host \<Rightarrow> (nat \<Rightarrow> int) \<Rightarrow> error + Response \<Rightarrow> State \<Rightarrow> error + State" where
  "tryBlock h clock fetched s =
     bind fetched (\<lambda>res.
       if \<not> res_ok res then
         bind (res_text res) (\<lambda>t.
           Inr (s\<lparr>errorMsg := Some backendErrorMsg, isLoading := False\<rparr>))
       else
         bind (res_json res) (\<lambda>data.
         bind (normalizeArticles h clock data) (\<lambda>mapped.
         bind (adoptSummary data) (\<lambda>sm.
           Inr (s\<lparr>results := mapped, summary := sm\<rparr>)))))"

text \<open>The \<^verbatim>\<open>catch\<close> and \<^verbatim>\<open>finally\<close> clauses around it.\<close>

definition analyzeHeadline_settle :: "host \<Rightarrow> (nat \<Rightarrow> int) \<Rightarrow> error + Response \<Rightarrow> State \<Rightarrow> State" where
  "analyzeHeadline_settle h clock fetched s =
     (case tryBlock h clock fetched s of
        Inl e \<Rightarrow> s\<lparr>errorMsg := Some unreachableMsg\<rparr>
      | Inr s' \<Rightarrow> s')\<lparr>isLoading := False\<rparr>"

text \<open>A whole call of \<^verbatim>\<open>analyzeHeadline\<close> with nothing else happening in between.\<close>

definition analyzeHeadline :: "host \<Rightarrow> (nat \<Rightarrow> int) \<Rightarrow> error + Response \<Rightarrow> State \<Rightarrow> State" where
  "analyzeHeadline h clock fetched s =
     (case analyzeHeadline_begin s of
        (s', None) \<Rightarrow> s'
      | (s', Some req) \<Rightarrow> analyzeHeadline_settle h clock fetched s')"

definition clearResults :: "State \<Rightarrow> State" where
  "clearResults s = s\<lparr>results := [], summary := None, errorMsg := None\<rparr>"

text \<open>
  The two triggers of a query. The button carries \<^verbatim>\<open>disabled={isLoading}\<close>, and
  a disabled button does not deliver its click; the input box calls
  \<^verbatim>\<open>analyzeHeadline\<close> on every \<^verbatim>\<open>Enter\<close> key.
\<close>

datatype event = Click | KeyDown string

fun dispatch :: "event \<Rightarrow> State \<Rightarrow> State \<times> Request option" where
  "dispatch Click s = (if isLoading s then (s, None) else analyzeHeadline_begin s)"
| "dispatch (KeyDown key) s = (if key = ''Enter'' then analyzeHeadline_begin s else (s, None))"

section \<open>View projection\<close>

fun filterBy_js :: "FilterBy \<Rightarrow> jsval" where
  "filterBy_js All = JStr ''all''"
| "filterBy_js (Only t) = js_of t"

text \<open>\<^verbatim>\<open>results.filter((r) => filterBy === "all" || r.sentiment === filterBy)\<close>\<close>

definition filteredResults :: "FilterBy \<Rightarrow> AnalysisResult list \<Rightarrow> AnalysisResult list" where
  "filteredResults fb rs = filter (\<lambda>r. fb = All \<or> sentiment r = filterBy_js fb) rs"

text \<open>
  \<^verbatim>\<open>order[v || "neutral"] || 0\<close> as a number (\<open>None\<close> is \<^verbatim>\<open>NaN\<close>). The key is
  the text of the operand. \<^verbatim>\<open>order\<close> has the three own properties; it inherits
  the members of \<^verbatim>\<open>Object.prototype\<close>, which are functions or an object and so
  truthy and not numbers; every other key gives \<^verbatim>\<open>undefined\<close> and with it 0.
\<close>

definition Object_prototype_names :: "string list" where
  "Object_prototype_names =
     [''constructor'', ''__proto__'', ''hasOwnProperty'', ''isPrototypeOf'',
      ''propertyIsEnumerable'', ''toLocaleString'', ''toString'', ''valueOf'',
      ''__defineGetter__'', ''__defineSetter__'', ''__lookupGetter__'', ''__lookupSetter__'']"

definition rank :: "host \<Rightarrow> jsval \<Rightarrow> error + int option" where
  "rank h v =
     bind (ToString h (or_else v (JStr ''neutral''))) (\<lambda>k. Inr (
       if k = ''positive'' then Some 3
       else if k = ''neutral'' then Some 2
       else if k = ''negative'' then Some 1
       else if k \<in> set Object_prototype_names then None
       else Some 0))"

definition minus_js :: "int option \<Rightarrow> int option \<Rightarrow> int option" where
  "minus_js x y = (case (x, y) of (Some m, Some n) \<Rightarrow> Some (m - n) | _ \<Rightarrow> None)"

text \<open>
  The comparison function given to \<^verbatim>\<open>sort\<close>. The difference of two time
  values is kept exact here; the double the engine computes for it has the same
  sign, and the sort looks at the sign only.
\<close>

definition compare :: "host \<Rightarrow> SortBy \<Rightarrow> AnalysisResult \<Rightarrow> AnalysisResult \<Rightarrow> error + int option" where
  "compare h sb a b =
     (if sb = SortDate \<or> sb = SortTime then
        Inr (minus_js (getTime (timestamp b)) (getTime (timestamp a)))
      else if sb = SortSentiment then
        bind (rank h (sentiment b)) (\<lambda>rb.
        bind (rank h (sentiment a)) (\<lambda>ra. Inr (minus_js rb ra)))
      else Inr (Some 0))"

text \<open>
  \<^verbatim>\<open>Array.prototype.sort\<close> with a comparison function. The language fixes the
  result only where the comparison function is consistent; the result is then the
  stable sort, computed here by insertion. A comparison that gives \<^verbatim>\<open>NaN\<close>
  makes the function inconsistent, and the language leaves the order to the engine:
  the sort then has no result here (\<open>None\<close>), and nothing is said about what
  the engine does from there on. An exception of the comparison function ends the
  sort. With the comparison function of this page every record of a list of two or
  more takes part in a comparison, so that a record on which it gives
  \<^verbatim>\<open>NaN\<close> or throws never goes unnoticed.
\<close>

fun insert_js :: "('a \<Rightarrow> 'a \<Rightarrow> error + int option) \<Rightarrow> 'a \<Rightarrow> 'a list \<Rightarrow> error + 'a list option" where
  "insert_js cmp x [] = Inr (Some [x])"
| "insert_js cmp x (y # ys) =
     bind (cmp x y) (\<lambda>v.
       case v of
         None \<Rightarrow> Inr None
       | Some n \<Rightarrow>
           if n \<le> 0 then Inr (Some (x # y # ys))
           else bind (insert_js cmp x ys) (\<lambda>zs. Inr (map_option (Cons y) zs)))"

fun sort_js :: "('a \<Rightarrow> 'a \<Rightarrow> error + int option) \<Rightarrow> 'a list \<Rightarrow> error + 'a list option" where
  "sort_js cmp [] = Inr (Some [])"
| "sort_js cmp (x # xs) =
     bind (sort_js cmp xs) (\<lambda>r.
       case r of None \<Rightarrow> Inr None | Some ys \<Rightarrow> insert_js cmp x ys)"

text \<open>
  \<^verbatim>\<open>[...filteredResults].sort(...)\<close>: the list the page shows, \<open>None\<close>
  where the language leaves it to the engine.
\<close>

definition sortedResults :: "host \<Rightarrow> FilterBy \<Rightarrow> SortBy \<Rightarrow> AnalysisResult list \<Rightarrow> error + AnalysisResult list option" where
  "sortedResults h fb sb rs = sort_js (compare h sb) (filteredResults fb rs)"

section \<open>Export\<close>

text \<open>
  \<^verbatim>\<open>v.replace(/"/g, '""')\<close>: only a string has the method; on any other value
  the call throws.
\<close>

definition dquote :: char where
  "dquote = CHR 0x22"

definition replaceQuotes :: "jsval \<Rightarrow> error + string" where
  "replaceQuotes v =
     (case v of
        JStr s \<Rightarrow> Inr (concat (map (\<lambda>c. if c = dquote then [dquote, dquote] else [c]) s))
      | _ \<Rightarrow> Inl TypeError)"

definition quoted :: "jsval \<Rightarrow> error + jsval" where
  "quoted v = bind (replaceQuotes v) (\<lambda>t. Inr (JStr ([dquote] @ t @ [dquote])))"

definition csvHeader :: "jsval list" where
  "csvHeader = map JStr [''Headline'', ''Sentiment'', ''Date'', ''Time'', ''Link'', ''Explanation'']"

definition csvRow :: "host \<Rightarrow> AnalysisResult \<Rightarrow> error + jsval list" where
  "csvRow h r =
     bind (quoted (headline r)) (\<lambda>hq.
     bind (quoted (explanation r)) (\<lambda>eq.
       Inr [hq,
            or_else (sentiment r) (JStr []),
            JStr (toLocaleDateString h (getTime (timestamp r))),
            JStr (toLocaleTimeString h (getTime (timestamp r))),
            or_else (link r) (JStr []),
            eq]))"

text \<open>\<^verbatim>\<open>row.join(",")\<close> is the text of the array \<^verbatim>\<open>row\<close>.\<close>

definition joinRow :: "host \<Rightarrow> jsval list \<Rightarrow> error + string" where
  "joinRow h row = ToString h (JArr row)"

definition newline :: char where
  "newline = CHR 0x0A"

text \<open>
  \<^verbatim>\<open>exportResults\<close>: the text handed to the download, \<open>None\<close> when nothing is
  produced.
\<close>

definition exportResults :: "host \<Rightarrow> AnalysisResult list \<Rightarrow> error + string option" where
  "exportResults h rs =
     (if rs = [] then Inr None
      else bind (sequence (map (csvRow h) rs)) (\<lambda>rows.
           bind (sequence (map (joinRow h) (csvHeader # rows))) (\<lambda>ls.
             Inr (Some (join [newline] ls)))))"

section \<open>A host and a clock for the examples\<close>

text \<open>
  The examples below run on this host: it renders whole numbers and the non-finite
  numbers (no example renders a number with a fraction, which this host would cut
  to its whole part), parses one ISO date, and renders every valid date as that day
  in an English locale. The clock advances by one millisecond per article.
\<close>

definition sampleHost :: host where
  "sampleHost =
     \<lparr>numberToString = (\<lambda>n. case n of
          Fin x \<Rightarrow> (if x < 0 then ''-'' else []) @ decimal (nat \<lfloor>\<bar>x\<bar>\<rfloor>)
        | PosInfinity \<Rightarrow> ''Infinity'' | NegInfinity \<Rightarrow> ''-Infinity'' | NaN \<Rightarrow> ''NaN''),
      functionToString = ''function () { [native code] }'',
      dateParse = (\<lambda>s. if s = ''2024-01-01T00:00:00.000Z'' then Some 1704067200000 else None),
      toLocaleDateString = (\<lambda>t. case t of None \<Rightarrow> ''Invalid Date'' | Some n \<Rightarrow> ''1/1/2024''),
      toLocaleTimeString = (\<lambda>t. case t of None \<Rightarrow> ''Invalid Date'' | Some n \<Rightarrow> ''12:00:00 AM'')\<rparr>"

definition sampleClock :: "nat \<Rightarrow> int" where
  "sampleClock i = 1704067200000 + int i"

definition samplePayload :: jsval where
  "samplePayload =
     JObj [(''articles'', JArr [
        JObj [(''title'', JStr ''Tesla stock crashes 15%''), (''sentiment'', JStr ''negative''),
              (''polarity'', JNum (Fin (- (812 / 1000))))],
        JObj [(''title'', JStr ''Gold prices surge after Fed cuts rates''),
              (''sentiment'', JStr ''positive''),
              (''published'', JStr ''2024-01-01T00:00:00.000Z''),
              (''explanation'', JStr ''Strong positive wording''),
              (''link'', JStr ''https://example.com/gold'')],
        JObj [(''title'', JStr ''Markets flat'')]]),
      (''summary'', JObj [(''positive'', JNum (Fin 1)), (''negative'', JNum (Fin 1))])]"

definition sampleArticles :: "jsval list" where
  "sampleArticles = (case samplePayload of JObj ((k, JArr as) # ps) \<Rightarrow> as | _ \<Rightarrow> [])"

definition sampleResults :: "AnalysisResult list" where
  "sampleResults =
     [\<lparr>headline = JStr ''Tesla stock crashes 15%'', sentiment = JStr ''negative'',
       timestamp = Date (Some 1704067200000), explanation = JStr ''Polarity score: -0.812'',
       link = JUndefined\<rparr>,
      \<lparr>headline = JStr ''Gold prices surge after Fed cuts rates'', sentiment = JStr ''positive'',
       timestamp = Date (Some 1704067200000), explanation = JStr ''Strong positive wording'',
       link = JStr ''https://example.com/gold''\<rparr>,
      \<lparr>headline = JStr ''Markets flat'', sentiment = JStr ''neutral'',
       timestamp = Date (Some 1704067200002), explanation = JStr ''Polarity score: '',
       link = JUndefined\<rparr>]"

text \<open>Payloads with an unknown label, an unparseable date and a polarity that is a word.\<close>

definition unknownLabelPayload :: jsval where
  "unknownLabelPayload =
     JObj [(''articles'', JArr [
        JObj [(''title'', JStr ''Rates rise''), (''sentiment'', JStr ''bullish'')]])]"

definition badDatePayload :: jsval where
  "badDatePayload =
     JObj [(''articles'', JArr [
        JObj [(''title'', JStr ''Rates rise''), (''published'', JStr ''not a date'')]])]"

definition wordPolarityPayload :: jsval where
  "wordPolarityPayload =
     JObj [(''articles'', JArr [
        JObj [(''title'', JStr ''Rates rise''), (''polarity'', JStr ''high'')]])]"

section \<open>Reading decimal numerals\<close>

text \<open>What it means for a text to be a decimal numeral, and the number it denotes.\<close>

definition isDigit :: "char \<Rightarrow> bool" where
  "isDigit c = (48 \<le> (of_char c :: nat) \<and> (of_char c :: nat) \<le> 57)"

definition digitsValue :: "string \<Rightarrow> nat" where
  "digitsValue s = foldl (\<lambda>v c. 10 * v + (of_char c - 48)) 0 s"

section \<open>Kinds of failed query\<close>

text \<open>
  The two kinds of failure the specification names, told from what the awaited
  calls give. A service-reported failure is a reply that is not \<^verbatim>\<open>ok\<close>, its
  text read. A transport failure is a \<^verbatim>\<open>fetch\<close> that rejects or a body that
  cannot be read: the text of a failed reply, the JSON of a successful one.
\<close>

definition serviceFailure :: "error + Response \<Rightarrow> bool" where
  "serviceFailure fetched =
     (case fetched of Inl e \<Rightarrow> False | Inr res \<Rightarrow> \<not> res_ok res \<and> \<not> isl (res_text res))"

definition transportFailure :: "error + Response \<Rightarrow> bool" where
  "transportFailure fetched =
     (case fetched of
        Inl e \<Rightarrow> True
      | Inr res \<Rightarrow> if res_ok res then isl (res_json res) else isl (res_text res))"

text \<open>States and replies for the examples.\<close>

definition loadedState :: State where
  "loadedState =
     \<lparr>headlineInput = ''Tesla stock crashes 15%'', results = sampleResults, sortBy = SortTime,
      filterBy = All, isLoading = False, errorMsg = None,
      summary = Some \<lparr>positive = JNum (Fin 1), negative = JNum (Fin 1), neutral = JNum (Fin 0)\<rparr>\<rparr>"

definition busyState :: State where
  "busyState = loadedState\<lparr>isLoading := True\<rparr>"

definition serverError :: "error + Response" where
  "serverError =
     Inr \<lparr>res_ok = False, res_text = Inr ''Internal Server Error'', res_json = Inl SyntaxError\<rparr>"

definition unreachable :: "error + Response" where
  "unreachable = Inl NetworkError"

section \<open>Records a sort can order\<close>

text \<open>
  The comparison function returns a number on two records when, for a sort by
  sentiment, looking each sentiment up gives a number and, for a sort by date or
  time, each timestamp is a valid date. Records of the data model of the
  specification (a declared sentiment, an instant as timestamp) are of this kind.
  \<open>sortKey\<close> is the number by which such records are then ordered, ascending.
\<close>

definition comparable :: "host \<Rightarrow> SortBy \<Rightarrow> AnalysisResult \<Rightarrow> bool" where
  "comparable h sb r =
     (case sb of
        SortSentiment \<Rightarrow> (case rank h (sentiment r) of Inr (Some n) \<Rightarrow> True | _ \<Rightarrow> False)
      | _ \<Rightarrow> getTime (timestamp r) \<noteq> None)"

definition sortKey :: "host \<Rightarrow> SortBy \<Rightarrow> AnalysisResult \<Rightarrow> int" where
  "sortKey h sb r =
     (case sb of
        SortSentiment \<Rightarrow> (case rank h (sentiment r) of Inr (Some n) \<Rightarrow> - n | _ \<Rightarrow> 0)
      | _ \<Rightarrow> (case getTime (timestamp r) of Some t \<Rightarrow> - t | None \<Rightarrow> 0))"

text \<open>
  The number the page looks up for a sentiment, where it is a number.
\<close>

definition rankOf :: "host \<Rightarrow> jsval \<Rightarrow> int" where
  "rankOf h v = (case rank h v of Inr (Some n) \<Rightarrow> n | _ \<Rightarrow> 0)"

text \<open>
  The order of the specification: positive is highest, then neutral, then negative;
  an absent sentiment counts as neutral.
\<close>

definition declaredSentiment :: "jsval \<Rightarrow> bool" where
  "declaredSentiment v = (v \<in> set (map js_of [Positive, Negative, Neutral, Null]))"

definition level :: "jsval \<Rightarrow> nat" where
  "level v = (if v = JStr ''positive'' then 3 else if v = JStr ''negative'' then 1 else 2)"

section \<open>Reading comma-separated text\<close>

text \<open>
  A reader of comma-separated text that respects quoting, for the round trip of the
  specification. Fields are separated by commas and rows by line feeds. A field
  that begins with a double quote runs to the next double quote that is not
  doubled, and a doubled double quote inside it stands for one. \<open>scan\<close> carries
  the field and the row read so far.
\<close>

definition comma :: char where
  "comma = CHR '',''"

datatype mode = FieldStart | Unquoted | Quoted | QuoteSeen

fun scan :: "mode \<Rightarrow> string \<Rightarrow> string list \<Rightarrow> string \<Rightarrow> string list list" where
  "scan m f row [] = [row @ [f]]"
| "scan Quoted f row (c # cs) =
     (if c = dquote then scan QuoteSeen f row cs else scan Quoted (f @ [c]) row cs)"
| "scan QuoteSeen f row (c # cs) =
     (if c = dquote then scan Quoted (f @ [c]) row cs
      else if c = comma then scan FieldStart [] (row @ [f]) cs
      else if c = newline then (row @ [f]) # scan FieldStart [] [] cs
      else scan Unquoted (f @ [c]) row cs)"
| "scan FieldStart f row (c # cs) =
     (if c = dquote then scan Quoted [] row cs
      else if c = comma then scan FieldStart [] (row @ [f]) cs
      else if c = newline then (row @ [f]) # scan FieldStart [] [] cs
      else scan Unquoted (f @ [c]) row cs)"
| "scan Unquoted f row (c # cs) =
     (if c = comma then scan FieldStart [] (row @ [f]) cs
      else if c = newline then (row @ [f]) # scan FieldStart [] [] cs
      else scan Unquoted (f @ [c]) row cs)"

definition parseCsv :: "string \<Rightarrow> string list list" where
  "parseCsv s = scan FieldStart [] [] s"

section \<open>The rows of the specification\<close>

text \<open>
  A record can be exported when nothing in its row throws: its headline and its
  explanation are strings, and its sentiment and its link, or the empty string in
  the place of a falsy one, have a text. The records of the declared types are of
  this kind, and so are records with a \<^verbatim>\<open>null\<close> link or an unexpected label.
\<close>

definition exportable :: "host \<Rightarrow> AnalysisResult \<Rightarrow> bool" where
  "exportable h r =
     (is_string (headline r) \<and> is_string (explanation r) \<and>
      \<not> isl (ToString h (or_else (sentiment r) (JStr []))) \<and>
      \<not> isl (ToString h (or_else (link r) (JStr []))))"

text \<open>
  The six fields of a row as the specification describes them: headline and
  explanation between double quotes with every double quote inside doubled, the
  other four as they are, a falsy (absent) sentiment or link as the empty text.
\<close>

definition textOf :: "jsval \<Rightarrow> string" where
  "textOf v = (case v of JStr s \<Rightarrow> s | _ \<Rightarrow> [])"

definition fieldText :: "host \<Rightarrow> jsval \<Rightarrow> string" where
  "fieldText h v = (case ToString h (or_else v (JStr [])) of Inr t \<Rightarrow> t | Inl e \<Rightarrow> [])"

fun doubled :: "string \<Rightarrow> string" where
  "doubled [] = []"
| "doubled (c # cs) = (if c = dquote then c # c # doubled cs else c # doubled cs)"

definition specFields :: "host \<Rightarrow> AnalysisResult \<Rightarrow> string list" where
  "specFields h r =
     [[dquote] @ doubled (textOf (headline r)) @ [dquote],
      fieldText h (sentiment r),
      toLocaleDateString h (getTime (timestamp r)),
      toLocaleTimeString h (getTime (timestamp r)),
      fieldText h (link r),
      [dquote] @ doubled (textOf (explanation r)) @ [dquote]]"

definition specHeader :: "string list" where
  "specHeader = [''Headline'', ''Sentiment'', ''Date'', ''Time'', ''Link'', ''Explanation'']"

text \<open>
  The six values a reader should get back from a row, and the condition under which
  the unquoted fields cannot be mistaken for structure: they hold no double quote,
  comma or line feed.
\<close>

definition parsedFields :: "host \<Rightarrow> AnalysisResult \<Rightarrow> string list" where
  "parsedFields h r =
     [textOf (headline r),
      fieldText h (sentiment r),
      toLocaleDateString h (getTime (timestamp r)),
      toLocaleTimeString h (getTime (timestamp r)),
      fieldText h (link r),
      textOf (explanation r)]"

definition plain :: "string \<Rightarrow> bool" where
  "plain s = list_all (\<lambda>c. c \<noteq> dquote \<and> c \<noteq> comma \<and> c \<noteq> newline) s"

definition plainFields :: "host \<Rightarrow> AnalysisResult \<Rightarrow> bool" where
  "plainFields h r =
     (plain (fieldText h (sentiment r)) \<and>
      plain (toLocaleDateString h (getTime (timestamp r))) \<and>
      plain (toLocaleTimeString h (getTime (timestamp r))) \<and>
      plain (fieldText h (link r)))"

section \<open>Replies for the examples of sorting and export\<close>

text \<open>
  A reply whose second article has a headline with double quotes, an unexpected
  label and a \<^verbatim>\<open>null\<close> link, and the records the page stores for it.
\<close>

definition sellNow :: string where
  "sellNow = ''He said '' @ [dquote] @ ''sell now'' @ [dquote]"

definition quotedPayload :: jsval where
  "quotedPayload =
     JObj [(''articles'', JArr [
        JObj [(''title'', JStr ''Fed holds rates''), (''sentiment'', JStr ''positive''),
              (''explanation'', JStr ''Calm wording''),
              (''link'', JStr ''https://example.com/fed'')],
        JObj [(''title'', JStr sellNow), (''sentiment'', JStr ''bullish''),
              (''polarity'', JNum (Fin (1 / 4))), (''link'', JNull)]])]"

definition quotedResults :: "AnalysisResult list" where
  "quotedResults =
     [\<lparr>headline = JStr ''Fed holds rates'', sentiment = JStr ''positive'',
       timestamp = Date (Some 1704067200000), explanation = JStr ''Calm wording'',
       link = JStr ''https://example.com/fed''\<rparr>,
      \<lparr>headline = JStr sellNow, sentiment = JStr ''bullish'',
       timestamp = Date (Some 1704067200001), explanation = JStr ''Polarity score: 0.250'',
       link = JNull\<rparr>]"

text \<open>The same reply with a line feed at the end of the first link.\<close>

definition lineFeedPayload :: jsval where
  "lineFeedPayload =
     JObj [(''articles'', JArr [
        JObj [(''title'', JStr ''Fed holds rates''), (''sentiment'', JStr ''positive''),
              (''explanation'', JStr ''Calm wording''),
              (''link'', JStr (''https://example.com/fed'' @ [newline]))],
        JObj [(''title'', JStr sellNow), (''sentiment'', JStr ''bullish''),
              (''polarity'', JNum (Fin (1 / 4))), (''link'', JNull)]])]"

text \<open>A reply whose article has no title.\<close>

definition untitledPayload :: jsval where
  "untitledPayload =
     JObj [(''articles'', JArr [
        JObj [(''sentiment'', JStr ''positive''), (''polarity'', JNum (Fin (1 / 2)))]])]"

text \<open>
  A reply whose middle label is the name of a member of \<^verbatim>\<open>Object.prototype\<close>,
  and the records the page stores for it.
\<close>

definition inheritedNamePayload :: jsval where
  "inheritedNamePayload =
     JObj [(''articles'', JArr [
        JObj [(''title'', JStr ''Stocks crash''), (''sentiment'', JStr ''negative''),
              (''explanation'', JStr ''Negative wording'')],
        JObj [(''title'', JStr ''Fed statement''), (''sentiment'', JStr ''constructor''),
              (''explanation'', JStr ''No wording'')],
        JObj [(''title'', JStr ''Gold surges''), (''sentiment'', JStr ''positive''),
              (''explanation'', JStr ''Positive wording'')]])]"

definition inheritedNameResults :: "AnalysisResult list" where
  "inheritedNameResults =
     [\<lparr>headline = JStr ''Stocks crash'', sentiment = JStr ''negative'',
       timestamp = Date (Some 1704067200000), explanation = JStr ''Negative wording'',
       link = JUndefined\<rparr>,
      \<lparr>headline = JStr ''Fed statement'', sentiment = JStr ''constructor'',
       timestamp = Date (Some 1704067200001), explanation = JStr ''No wording'',
       link = JUndefined\<rparr>,
      \<lparr>headline = JStr ''Gold surges'', sentiment = JStr ''positive'',
       timestamp = Date (Some 1704067200002), explanation = JStr ''Positive wording'',
       link = JUndefined\<rparr>]"

text \<open>
  A reply whose first label is an object with a member \<^verbatim>\<open>toString\<close>, and one
  whose first date does not parse, with the records the page stores for them.
\<close>

definition objectLabelPayload :: jsval where
  "objectLabelPayload =
     JObj [(''articles'', JArr [
        JObj [(''title'', JStr ''Stocks crash''),
              (''sentiment'', JObj [(''toString'', JNum (Fin 1))]),
              (''explanation'', JStr ''Negative wording'')],
        JObj [(''title'', JStr ''Gold surges''), (''sentiment'', JStr ''positive''),
              (''explanation'', JStr ''Positive wording'')]])]"

definition objectLabelResults :: "AnalysisResult list" where
  "objectLabelResults =
     [\<lparr>headline = JStr ''Stocks crash'', sentiment = JObj [(''toString'', JNum (Fin 1))],
       timestamp = Date (Some 1704067200000), explanation = JStr ''Negative wording'',
       link = JUndefined\<rparr>,
      \<lparr>headline = JStr ''Gold surges'', sentiment = JStr ''positive'',
       timestamp = Date (Some 1704067200001), explanation = JStr ''Positive wording'',
       link = JUndefined\<rparr>]"

definition badDatePairPayload :: jsval where
  "badDatePairPayload =
     JObj [(''articles'', JArr [
        JObj [(''title'', JStr ''Stocks crash''), (''sentiment'', JStr ''negative''),
              (''published'', JStr ''not a date''), (''explanation'', JStr ''Negative wording'')],
        JObj [(''title'', JStr ''Gold surges''), (''sentiment'', JStr ''positive''),
              (''published'', JStr ''2024-01-01T00:00:00.000Z''),
              (''explanation'', JStr ''Positive wording'')]])]"

definition badDatePairResults :: "AnalysisResult list" where
  "badDatePairResults =
     [\<lparr>headline = JStr ''Stocks crash'', sentiment = JStr ''negative'',
       timestamp = Date None, explanation = JStr ''Negative wording'', link = JUndefined\<rparr>,
      \<lparr>headline = JStr ''Gold surges'', sentiment = JStr ''positive'',
       timestamp = Date (Some 1704067200000), explanation = JStr ''Positive wording'',
       link = JUndefined\<rparr>]"

text \<open>Normalising a reply and exporting what was stored, as the page does in two steps.\<close>

definition exportOfReply :: "host \<Rightarrow> (nat \<Rightarrow> int) \<Rightarrow> jsval \<Rightarrow> error + string option" where
  "exportOfReply h clock data = bind (normalizeArticles h clock data) (exportResults h)"

section \<open>Properties of the normaliser\<close>

declare decimal.simps [simp del]

lemma bind_Inl [simp]: "bind (Inl e) f = Inl e"
  by (simp add: bind_def)

lemma bind_Inr [simp]: "bind (Inr x) f = f x"
  by (simp add: bind_def)

lemma bind_eq_Inr: "bind m f = Inr y \<longleftrightarrow> (\<exists>x. m = Inr x \<and> f x = Inr y)"
  by (cases m) simp_all

lemma bind_eq_Inl: "bind m f = Inl e \<longleftrightarrow> m = Inl e \<or> (\<exists>x. m = Inr x \<and> f x = Inl e)"
  by (cases m) simp_all

subsection \<open>The loop over the articles\<close>

lemma mapArticles_length:
  "mapArticles h clock i as = Inr rs \<Longrightarrow> length rs = length as"
proof (induction as arbitrary: i rs)
  case Nil
  then show ?case by simp
next
  case (Cons a as)
  then show ?case by (auto simp: bind_eq_Inr)
qed

lemma mapArticles_nth:
  "mapArticles h clock i as = Inr rs \<Longrightarrow> k < length as \<Longrightarrow>
   mapArticle h (clock (i + k)) (as ! k) = Inr (rs ! k)"
proof (induction as arbitrary: i rs k)
  case Nil
  then show ?case by simp
next
  case (Cons a as)
  from Cons.prems(1) obtain r rs' where r: "mapArticle h (clock i) a = Inr r"
    and rs': "mapArticles h clock (Suc i) as = Inr rs'" and rs: "rs = r # rs'"
    by (auto simp: bind_eq_Inr)
  show ?case
  proof (cases k)
    case 0
    then show ?thesis using r rs by simp
  next
    case (Suc j)
    then have "j < length as" using Cons.prems(2) by simp
    from Cons.IH [OF rs' this] show ?thesis using Suc rs by simp
  qed
qed

lemma normalizeArticles_nth:
  assumes "get data ''articles'' = Inr (JArr as)" and "normalizeArticles h clock data = Inr rs"
    and "k < length as"
  shows "length rs = length as" and "mapArticle h (clock k) (as ! k) = Inr (rs ! k)"
proof -
  from assms(1,2) have m: "mapArticles h clock 0 as = Inr rs"
    by (simp add: normalizeArticles_def or_else_def)
  show "length rs = length as" by (rule mapArticles_length [OF m])
  show "mapArticle h (clock k) (as ! k) = Inr (rs ! k)"
    using mapArticles_nth [OF m assms(3)] by simp
qed

lemma mapArticle_Inr:
  assumes "mapArticle h now a = Inr r"
  shows "\<exists>s p ts e ex title lnk.
     get a ''sentiment'' = Inr s \<and> get a ''published'' = Inr p \<and>
     (if truthy p then newDate h p else Inr (Date (Some now))) = Inr ts \<and>
     get a ''explanation'' = Inr e \<and>
     (if truthy e then Inr e
      else bind (get a ''polarity'') (\<lambda>pol.
           bind (polarityText h pol) (\<lambda>t. Inr (JStr (''Polarity score: '' @ t))))) = Inr ex \<and>
     get a ''title'' = Inr title \<and> get a ''link'' = Inr lnk \<and>
     r = \<lparr>headline = title, sentiment = or_else s (JStr ''neutral''), timestamp = ts,
          explanation = ex, link = lnk\<rparr>"
  using assms unfolding mapArticle_def bind_eq_Inr by blast

lemma mapArticle_sentiment:
  assumes "mapArticle h now a = Inr r"
  shows "\<exists>s. get a ''sentiment'' = Inr s \<and> sentiment r = (if truthy s then s else JStr ''neutral'')"
proof -
  from mapArticle_Inr [OF assms] obtain s ts ex title lnk where
    "get a ''sentiment'' = Inr s"
    "r = \<lparr>headline = title, sentiment = or_else s (JStr ''neutral''), timestamp = ts,
          explanation = ex, link = lnk\<rparr>"
    by blast
  then show ?thesis by (simp add: or_else_def)
qed

lemma mapArticle_timestamp:
  assumes "mapArticle h now a = Inr r"
  shows "\<exists>p. get a ''published'' = Inr p \<and>
       (if truthy p then newDate h p = Inr (timestamp r) else timestamp r = Date (Some now))"
proof -
  from mapArticle_Inr [OF assms] obtain s p ts ex title lnk where
    p: "get a ''published'' = Inr p"
    and ts: "(if truthy p then newDate h p else Inr (Date (Some now))) = Inr ts"
    and r: "r = \<lparr>headline = title, sentiment = or_else s (JStr ''neutral''), timestamp = ts,
          explanation = ex, link = lnk\<rparr>"
    by blast
  from r have "timestamp r = ts" by simp
  with p ts show ?thesis by (cases "truthy p") auto
qed

lemma mapArticle_explanation:
  assumes "mapArticle h now a = Inr r"
  shows "\<exists>e. get a ''explanation'' = Inr e \<and>
       (if truthy e then explanation r = e
        else \<exists>p t. get a ''polarity'' = Inr p \<and> polarityText h p = Inr t \<and>
                   explanation r = JStr (''Polarity score: '' @ t))"
proof -
  from mapArticle_Inr [OF assms] obtain s ts e ex title lnk where
    e: "get a ''explanation'' = Inr e"
    and ex: "(if truthy e then Inr e
      else bind (get a ''polarity'') (\<lambda>pol.
           bind (polarityText h pol) (\<lambda>t. Inr (JStr (''Polarity score: '' @ t))))) = Inr ex"
    and r: "r = \<lparr>headline = title, sentiment = or_else s (JStr ''neutral''), timestamp = ts,
          explanation = ex, link = lnk\<rparr>"
    by blast
  from r have x: "explanation r = ex" by simp
  show ?thesis
  proof (cases "truthy e")
    case True
    with e ex x show ?thesis by simp
  next
    case False
    with ex obtain pol t where "get a ''polarity'' = Inr pol" "polarityText h pol = Inr t"
      "ex = JStr (''Polarity score: '' @ t)"
      by (auto simp: bind_eq_Inr)
    with e x False show ?thesis by auto
  qed
qed

text \<open>On such articles the normaliser returns records.\<close>

lemma ToString_primitive:
  assumes "primitive v"
  shows "\<exists>t. ToString h v = Inr t"
  using assms by (cases v) (simp_all add: primitive_def)

lemma newDate_primitive:
  assumes "primitive v"
  shows "\<exists>d. newDate h v = Inr d"
  using assms by (cases v) (simp_all add: primitive_def)

lemma polarityText_primitive:
  assumes "primitive v"
  shows "\<exists>t. polarityText h v = Inr t"
proof (cases v)
  case (JNum n)
  then show ?thesis by (simp add: polarityText_def)
next
  case JUndefined
  then show ?thesis by (simp add: polarityText_def coalesce_def nullish_def)
next
  case JNull
  then show ?thesis by (simp add: polarityText_def coalesce_def nullish_def)
next
  case (JBool b)
  then show ?thesis by (simp add: polarityText_def coalesce_def nullish_def)
next
  case (JStr s)
  then show ?thesis by (simp add: polarityText_def coalesce_def nullish_def)
next
  case (JArr vs)
  with assms show ?thesis by (simp add: primitive_def)
next
  case (JObj ps)
  with assms show ?thesis by (simp add: primitive_def)
next
  case JFunction
  with assms show ?thesis by (simp add: primitive_def)
qed

lemma mapArticle_returns:
  assumes "plainArticle a"
  shows "\<exists>r. mapArticle h now a = Inr r"
proof -
  from assms obtain ps where a: "a = JObj ps" by (cases a) (simp_all add: plainArticle_def)
  define p where "p = (case map_of ps ''published'' of Some v \<Rightarrow> v | None \<Rightarrow> JUndefined)"
  define q where "q = (case map_of ps ''polarity'' of Some v \<Rightarrow> v | None \<Rightarrow> JUndefined)"
  have pp: "primitive p" and pq: "primitive q"
    using assms by (auto simp: a plainArticle_def p_def q_def primitive_def split: option.splits)
  obtain ts where ts: "(if truthy p then newDate h p else Inr (Date (Some now))) = Inr ts"
    using newDate_primitive [OF pp, of h] by (cases "truthy p") auto
  obtain t where t: "polarityText h q = Inr t"
    using polarityText_primitive [OF pq, of h] by blast
  have gp: "get a ''published'' = Inr p" and gq: "get a ''polarity'' = Inr q"
    by (simp_all add: a p_def q_def)
  obtain s e ti l where g: "get a ''sentiment'' = Inr s" "get a ''explanation'' = Inr e"
    "get a ''title'' = Inr ti" "get a ''link'' = Inr l"
    by (simp add: a)
  show ?thesis
    by (cases "truthy e") (simp_all add: mapArticle_def g gp gq ts t)
qed

lemma mapArticles_returns:
  assumes "\<forall>a\<in>set as. plainArticle a"
  shows "\<exists>rs. mapArticles h clock i as = Inr rs"
  using assms
proof (induction as arbitrary: i)
  case Nil
  show ?case by simp
next
  case (Cons a as)
  then obtain r rs where "mapArticle h (clock i) a = Inr r" "mapArticles h clock (Suc i) as = Inr rs"
    using mapArticle_returns [of a h "clock i"] by fastforce
  then show ?case by simp
qed

lemma normalizeArticles_returns:
  assumes "get data ''articles'' = Inr (JArr as)" and "\<forall>a\<in>set as. plainArticle a"
  shows "\<exists>rs. normalizeArticles h clock data = Inr rs"
  using mapArticles_returns [OF assms(2)] assms(1)
  by (simp add: normalizeArticles_def or_else_def)

subsection \<open>Three decimal places\<close>

lemma of_char_digit: "d < 10 \<Longrightarrow> (of_char (digit d) :: nat) = 48 + d"
  by (simp add: digit_def)

lemma isDigit_digit: "d < 10 \<Longrightarrow> isDigit (digit d)"
  by (simp add: isDigit_def of_char_digit)

lemma decimal_digits: "list_all isDigit (decimal n)"
proof (induction n rule: decimal.induct)
  case (1 n)
  show ?case
  proof (cases "n < 10")
    case True
    then show ?thesis by (subst decimal.simps) (simp add: isDigit_digit)
  next
    case False
    with 1 show ?thesis by (subst decimal.simps) (simp add: isDigit_digit)
  qed
qed

lemma digitsValue_snoc: "digitsValue (s @ [c]) = 10 * digitsValue s + (of_char c - 48)"
  by (simp add: digitsValue_def)

lemma digitsValue_decimal: "digitsValue (decimal n) = n"
proof (induction n rule: decimal.induct)
  case (1 n)
  show ?case
  proof (cases "n < 10")
    case True
    then show ?thesis by (subst decimal.simps) (simp add: digitsValue_def of_char_digit)
  next
    case False
    with 1 show ?thesis
      by (subst decimal.simps) (simp add: digitsValue_snoc of_char_digit)
  qed
qed

lemma digitsValue_zeros: "digitsValue (replicate k CHR ''0'' @ s) = digitsValue s"
proof -
  have "foldl (\<lambda>v c. 10 * v + (of_char c - 48)) 0 (replicate k CHR ''0'') = (0::nat)"
    by (induction k) (simp_all add: replicate_app_Cons_same)
  then show ?thesis by (simp add: digitsValue_def)
qed

lemma isDigit_zeros: "list_all isDigit (replicate k CHR ''0'')"
  by (induction k) (simp_all add: isDigit_def)

lemma fixed3_shape:
  "\<exists>ip fr. fixed3 x = ip @ ''.'' @ fr \<and> ip \<noteq> [] \<and> length fr = 3 \<and>
     list_all isDigit (ip @ fr) \<and> digitsValue (ip @ fr) = nat \<lfloor>x * 1000 + 1 / 2\<rfloor>"
proof -
  define n where "n = nat \<lfloor>x * 1000 + 1 / 2\<rfloor>"
  define m where "m = (if length (decimal n) \<le> 3
    then replicate (4 - length (decimal n)) CHR ''0'' @ decimal n else decimal n)"
  have len: "4 \<le> length m"
    by (simp add: m_def)
  have digits: "list_all isDigit m"
    by (simp add: m_def decimal_digits isDigit_zeros)
  have val: "digitsValue m = n"
    by (simp add: m_def digitsValue_zeros digitsValue_decimal)
  have eq: "fixed3 x = take (length m - 3) m @ ''.'' @ drop (length m - 3) m"
    by (simp add: fixed3_def Let_def m_def n_def)
  show ?thesis
  proof (intro exI conjI)
    show "fixed3 x = take (length m - 3) m @ ''.'' @ drop (length m - 3) m" by (rule eq)
    show "take (length m - 3) m \<noteq> []" using len by auto
    show "length (drop (length m - 3) m) = 3" using len by simp
    show "list_all isDigit (take (length m - 3) m @ drop (length m - 3) m)" using digits by simp
    show "digitsValue (take (length m - 3) m @ drop (length m - 3) m) = nat \<lfloor>x * 1000 + 1 / 2\<rfloor>"
      using val by (simp add: n_def)
  qed
qed

lemma toFixed3_shape:
  assumes "\<bar>x\<bar> < 10 ^ 21"
  shows "\<exists>ip fr. toFixed3 h (Fin x) = (if x < 0 then ''-'' else []) @ ip @ ''.'' @ fr \<and>
     ip \<noteq> [] \<and> length fr = 3 \<and> list_all isDigit (ip @ fr) \<and>
     digitsValue (ip @ fr) = nat \<lfloor>\<bar>x\<bar> * 1000 + 1 / 2\<rfloor>"
proof -
  from fixed3_shape [of "\<bar>x\<bar>"] obtain ip fr where
    f: "fixed3 \<bar>x\<bar> = ip @ ''.'' @ fr" and r: "ip \<noteq> []" "length fr = 3" "list_all isDigit (ip @ fr)"
      "digitsValue (ip @ fr) = nat \<lfloor>\<bar>x\<bar> * 1000 + 1 / 2\<rfloor>"
    by blast
  have "toFixed3 h (Fin x) = (if x < 0 then ''-'' else []) @ fixed3 \<bar>x\<bar>"
    using assms by (auto simp: Let_def abs_if)
  with f r show ?thesis by auto
qed

lemma polarityText_cases:
  assumes "polarityText h p = Inr t"
  shows "(nullish p \<longrightarrow> t = [])"
    and "(\<forall>x. p = JNum (Fin x) \<and> \<bar>x\<bar> < 10 ^ 21 \<longrightarrow>
           (\<exists>ip fr. t = (if x < 0 then ''-'' else []) @ ip @ ''.'' @ fr \<and> ip \<noteq> [] \<and>
              length fr = 3 \<and> list_all isDigit (ip @ fr) \<and>
              digitsValue (ip @ fr) = nat \<lfloor>\<bar>x\<bar> * 1000 + 1 / 2\<rfloor>))"
    and "(\<not> nullish p \<and> (\<forall>n. p \<noteq> JNum n) \<longrightarrow> ToString h p = Inr t)"
proof -
  show "nullish p \<longrightarrow> t = []"
    using assms by (auto simp: polarityText_def nullish_def coalesce_def)
  show "\<forall>x. p = JNum (Fin x) \<and> \<bar>x\<bar> < 10 ^ 21 \<longrightarrow>
           (\<exists>ip fr. t = (if x < 0 then ''-'' else []) @ ip @ ''.'' @ fr \<and> ip \<noteq> [] \<and>
              length fr = 3 \<and> list_all isDigit (ip @ fr) \<and>
              digitsValue (ip @ fr) = nat \<lfloor>\<bar>x\<bar> * 1000 + 1 / 2\<rfloor>)"
  proof (intro allI impI)
    fix x assume a: "p = JNum (Fin x) \<and> \<bar>x\<bar> < 10 ^ 21"
    then have "t = toFixed3 h (Fin x)" using assms by (simp add: polarityText_def)
    with toFixed3_shape [of x h] a show "\<exists>ip fr. t = (if x < 0 then ''-'' else []) @ ip @ ''.'' @ fr \<and> ip \<noteq> [] \<and>
              length fr = 3 \<and> list_all isDigit (ip @ fr) \<and>
              digitsValue (ip @ fr) = nat \<lfloor>\<bar>x\<bar> * 1000 + 1 / 2\<rfloor>" by simp
  qed
  show "\<not> nullish p \<and> (\<forall>n. p \<noteq> JNum n) \<longrightarrow> ToString h p = Inr t"
    using assms by (cases p) (auto simp: polarityText_def coalesce_def nullish_def)
qed

lemma sample_articles: "get samplePayload ''articles'' = Inr (JArr sampleArticles)"
  by code_simp

lemma sample_normalized: "normalizeArticles sampleHost sampleClock samplePayload = Inr sampleResults"
  by code_simp

lemma sample_length: "length sampleArticles = 3"
  by code_simp

subsection \<open>Sentiment\<close>

text \<open>
  Claim C1, as the code has it. For every article of a payload that normalises, the
  record at the same position takes the value of the article's \<^verbatim>\<open>sentiment\<close>
  field whenever that value is truthy, whatever it is, and \<^verbatim>\<open>"neutral"\<close>
  whenever the field is absent or falsy (\<^verbatim>\<open>null\<close>, the empty string, 0,
  \<^verbatim>\<open>false\<close>). The three known values are truthy and are kept; so is every
  other non-empty label.
\<close>

theorem sentiment_kept_or_neutral:
  assumes "get data ''articles'' = Inr (JArr as)" and "normalizeArticles h clock data = Inr rs"
    and "k < length as"
  shows "length rs = length as \<and>
         (\<exists>s. get (as ! k) ''sentiment'' = Inr s \<and>
              sentiment (rs ! k) = (if truthy s then s else JStr ''neutral''))"
  using normalizeArticles_nth [OF assms] mapArticle_sentiment by blast


text \<open>
  The theorem at the third article of the sample payload, which has no sentiment.
\<close>

theorem sentiment_kept_or_neutral_witness:
  "get samplePayload ''articles'' = Inr (JArr sampleArticles) \<and>
   normalizeArticles sampleHost sampleClock samplePayload = Inr sampleResults \<and>
   2 < length sampleArticles \<and>
   length sampleResults = length sampleArticles \<and>
   (\<exists>s. get (sampleArticles ! 2) ''sentiment'' = Inr s \<and>
        sentiment (sampleResults ! 2) = (if truthy s then s else JStr ''neutral''))"
proof -
  have k: "2 < length sampleArticles" by (simp add: sample_length)
  show ?thesis
    using sentiment_kept_or_neutral [OF sample_articles sample_normalized k]
      sample_articles sample_normalized k by blast
qed


text \<open>
  Claim C1 as stated fails: the label \<^verbatim>\<open>"bullish"\<close> is not one of the three
  known values, and the record keeps it instead of \<^verbatim>\<open>"neutral"\<close>.
\<close>

theorem unknown_label_counterexample:
  "map_sum id (map sentiment) (normalizeArticles sampleHost sampleClock unknownLabelPayload)
     = Inr [JStr ''bullish'']"
  by code_simp

subsection \<open>Timestamp\<close>

text \<open>
  Claim C3, as the code has it. An article whose \<^verbatim>\<open>published\<close> field is
  absent or falsy gets the reading of the clock at its own processing. A truthy
  field is handed to \<^verbatim>\<open>new Date\<close> and the record holds what that gives: for a
  non-empty string the parsed instant, and an invalid date when the string does not
  parse.
\<close>

theorem timestamp_parsed_or_now:
  assumes "get data ''articles'' = Inr (JArr as)" and "normalizeArticles h clock data = Inr rs"
    and "k < length as"
  shows "\<exists>p. get (as ! k) ''published'' = Inr p \<and>
           (\<not> truthy p \<longrightarrow> timestamp (rs ! k) = Date (Some (clock k))) \<and>
           (truthy p \<longrightarrow> newDate h p = Inr (timestamp (rs ! k))) \<and>
           (\<forall>t. p = JStr t \<and> t \<noteq> [] \<longrightarrow> getTime (timestamp (rs ! k)) = dateParse h t)"
proof -
  from mapArticle_timestamp [OF normalizeArticles_nth(2) [OF assms]]
  obtain p where p: "get (as ! k) ''published'' = Inr p"
    and c: "if truthy p then newDate h p = Inr (timestamp (rs ! k))
            else timestamp (rs ! k) = Date (Some (clock k))"
    by blast
  have "getTime (timestamp (rs ! k)) = dateParse h t" if "p = JStr t \<and> t \<noteq> []" for t
  proof -
    from that c have "Inr (Date (dateParse h t)) = (Inr (timestamp (rs ! k)) :: error + Date)"
      by simp
    then have "timestamp (rs ! k) = Date (dateParse h t)" by simp
    then show ?thesis by simp
  qed
  with p c show ?thesis by (auto split: if_splits)
qed


text \<open>
  The theorem at the third article of the sample payload. The first and the third
  article have no \<^verbatim>\<open>published\<close> field, and their records hold two different
  readings of the clock.
\<close>

theorem timestamp_parsed_or_now_witness:
  "get samplePayload ''articles'' = Inr (JArr sampleArticles) \<and>
   normalizeArticles sampleHost sampleClock samplePayload = Inr sampleResults \<and>
   2 < length sampleArticles \<and>
   (\<exists>p. get (sampleArticles ! 2) ''published'' = Inr p \<and>
        (\<not> truthy p \<longrightarrow> timestamp (sampleResults ! 2) = Date (Some (sampleClock 2))) \<and>
        (truthy p \<longrightarrow> newDate sampleHost p = Inr (timestamp (sampleResults ! 2))) \<and>
        (\<forall>t. p = JStr t \<and> t \<noteq> [] \<longrightarrow>
           getTime (timestamp (sampleResults ! 2)) = dateParse sampleHost t)) \<and>
   timestamp (sampleResults ! 0) = Date (Some (sampleClock 0)) \<and>
   timestamp (sampleResults ! 2) = Date (Some (sampleClock 2)) \<and>
   sampleClock 0 \<noteq> sampleClock 2"
proof -
  have k: "2 < length sampleArticles" by (simp add: sample_length)
  have "timestamp (sampleResults ! 0) = Date (Some (sampleClock 0))"
    "timestamp (sampleResults ! 2) = Date (Some (sampleClock 2))"
    "sampleClock 0 \<noteq> sampleClock 2"
    by (simp_all add: sampleResults_def sampleClock_def)
  then show ?thesis
    using timestamp_parsed_or_now [OF sample_articles sample_normalized k]
      sample_articles sample_normalized k by blast
qed


text \<open>
  Claim C3 as stated fails: a \<^verbatim>\<open>published\<close> field that does not parse gives
  a record whose time value is \<^verbatim>\<open>NaN\<close>, not the instant of processing.
\<close>

theorem unparseable_date_counterexample:
  "map_sum id (map (getTime \<circ> timestamp))
     (normalizeArticles sampleHost sampleClock badDatePayload) = Inr [None]"
  by code_simp

subsection \<open>Explanation\<close>

text \<open>
  Claim C4, as the code has it. A truthy \<^verbatim>\<open>explanation\<close> is stored as it
  is. Otherwise the record's explanation is \<^verbatim>\<open>"Polarity score: "\<close> followed by:
  nothing when the polarity is \<^verbatim>\<open>undefined\<close> or \<^verbatim>\<open>null\<close>; for a
  finite number of magnitude below \<open>10\<^sup>2\<^sup>1\<close>, an optional minus sign, a
  non-empty run of digits, a point and exactly three digits, the digits being those
  of the magnitude times a thousand, rounded to the nearest integer; and for any
  other value that is not a number, the text of that value.
\<close>

theorem explanation_verbatim_or_synthesized:
  assumes "get data ''articles'' = Inr (JArr as)" and "normalizeArticles h clock data = Inr rs"
    and "k < length as"
  shows "\<exists>e. get (as ! k) ''explanation'' = Inr e \<and>
     (truthy e \<longrightarrow> explanation (rs ! k) = e) \<and>
     (\<not> truthy e \<longrightarrow>
        (\<exists>p t. get (as ! k) ''polarity'' = Inr p \<and>
           explanation (rs ! k) = JStr (''Polarity score: '' @ t) \<and>
           (nullish p \<longrightarrow> t = []) \<and>
           (\<forall>x. p = JNum (Fin x) \<and> \<bar>x\<bar> < 10 ^ 21 \<longrightarrow>
              (\<exists>ip fr. t = (if x < 0 then ''-'' else []) @ ip @ ''.'' @ fr \<and> ip \<noteq> [] \<and>
                 length fr = 3 \<and> list_all isDigit (ip @ fr) \<and>
                 digitsValue (ip @ fr) = nat \<lfloor>\<bar>x\<bar> * 1000 + 1 / 2\<rfloor>)) \<and>
           (\<not> nullish p \<and> (\<forall>n. p \<noteq> JNum n) \<longrightarrow> ToString h p = Inr t)))"
proof -
  from mapArticle_explanation [OF normalizeArticles_nth(2) [OF assms]]
  obtain e where e: "get (as ! k) ''explanation'' = Inr e"
    and c: "if truthy e then explanation (rs ! k) = e
        else \<exists>p t. get (as ! k) ''polarity'' = Inr p \<and> polarityText h p = Inr t \<and>
                   explanation (rs ! k) = JStr (''Polarity score: '' @ t)"
    by blast
  show ?thesis
  proof (cases "truthy e")
    case True
    with e c show ?thesis by auto
  next
    case False
    with c obtain p t where p: "get (as ! k) ''polarity'' = Inr p"
      and t: "polarityText h p = Inr t"
      and x: "explanation (rs ! k) = JStr (''Polarity score: '' @ t)"
      by auto
    from polarityText_cases [OF t] e p x False show ?thesis by blast
  qed
qed


text \<open>
  The theorem at the first article of the sample payload, the scenario of the
  specification: polarity \<open>-0.812\<close> gives \<^verbatim>\<open>"Polarity score: -0.812"\<close>.
\<close>

theorem explanation_verbatim_or_synthesized_witness:
  "get samplePayload ''articles'' = Inr (JArr sampleArticles) \<and>
   normalizeArticles sampleHost sampleClock samplePayload = Inr sampleResults \<and>
   0 < length sampleArticles \<and>
   (\<exists>e. get (sampleArticles ! 0) ''explanation'' = Inr e \<and>
     (truthy e \<longrightarrow> explanation (sampleResults ! 0) = e) \<and>
     (\<not> truthy e \<longrightarrow>
        (\<exists>p t. get (sampleArticles ! 0) ''polarity'' = Inr p \<and>
           explanation (sampleResults ! 0) = JStr (''Polarity score: '' @ t) \<and>
           (nullish p \<longrightarrow> t = []) \<and>
           (\<forall>x. p = JNum (Fin x) \<and> \<bar>x\<bar> < 10 ^ 21 \<longrightarrow>
              (\<exists>ip fr. t = (if x < 0 then ''-'' else []) @ ip @ ''.'' @ fr \<and> ip \<noteq> [] \<and>
                 length fr = 3 \<and> list_all isDigit (ip @ fr) \<and>
                 digitsValue (ip @ fr) = nat \<lfloor>\<bar>x\<bar> * 1000 + 1 / 2\<rfloor>)) \<and>
           (\<not> nullish p \<and> (\<forall>n. p \<noteq> JNum n) \<longrightarrow> ToString sampleHost p = Inr t)))) \<and>
   sentiment (sampleResults ! 0) = JStr ''negative'' \<and>
   explanation (sampleResults ! 0) = JStr ''Polarity score: -0.812''"
proof -
  have k: "0 < length sampleArticles" by (simp add: sample_length)
  have "sentiment (sampleResults ! 0) = JStr ''negative''"
    "explanation (sampleResults ! 0) = JStr ''Polarity score: -0.812''"
    by (simp_all add: sampleResults_def)
  then show ?thesis
    using explanation_verbatim_or_synthesized [OF sample_articles sample_normalized k]
      sample_articles sample_normalized k by blast
qed


text \<open>
  Claim C4 as stated fails: a polarity that is the word \<^verbatim>\<open>"high"\<close> is not
  numeric, and it is rendered as that word, not as the empty text.
\<close>

theorem word_polarity_counterexample:
  "map_sum id (map explanation)
     (normalizeArticles sampleHost sampleClock wordPolarityPayload)
     = Inr [JStr ''Polarity score: high'']"
  by code_simp

section \<open>Properties of the query\<close>

lemma sample_query_sent:
  "analyzeHeadline_begin loadedState =
     (loadedState\<lparr>isLoading := True\<rparr>, Some \<lparr>query = ''Tesla stock crashes 15%'', limit = 10\<rparr>)"
  by code_simp

lemma begin_sent:
  assumes "trim (headlineInput s) \<noteq> []"
  shows "analyzeHeadline_begin s =
     (s\<lparr>isLoading := True, errorMsg := None\<rparr>, Some \<lparr>query = trim (headlineInput s), limit = 10\<rparr>)"
  using assms by (simp add: analyzeHeadline_begin_def Let_def)

lemma analyzeHeadline_sent:
  assumes "trim (headlineInput s) \<noteq> []"
  shows "analyzeHeadline h clock fetched s =
     analyzeHeadline_settle h clock fetched (s\<lparr>isLoading := True, errorMsg := None\<rparr>)"
  by (simp add: analyzeHeadline_def begin_sent [OF assms])

lemma tryBlock_service:
  assumes "serviceFailure fetched"
  shows "tryBlock h clock fetched s = Inr (s\<lparr>errorMsg := Some backendErrorMsg, isLoading := False\<rparr>)"
proof -
  from assms obtain res t where "fetched = Inr res" "\<not> res_ok res" "res_text res = Inr t"
    by (cases fetched; cases "res_text (projr fetched)") (auto simp: serviceFailure_def)
  then show ?thesis by (simp add: tryBlock_def)
qed

lemma tryBlock_transport:
  assumes "transportFailure fetched"
  shows "isl (tryBlock h clock fetched s)"
proof (cases fetched)
  case (Inl e)
  then show ?thesis by (simp add: tryBlock_def)
next
  case (Inr res)
  show ?thesis
  proof (cases "res_ok res")
    case True
    with assms Inr obtain e where "res_json res = Inl e"
      by (cases "res_json res") (auto simp: transportFailure_def)
    with True Inr show ?thesis by (simp add: tryBlock_def)
  next
    case False
    with assms Inr obtain e where "res_text res = Inl e"
      by (cases "res_text res") (auto simp: transportFailure_def)
    with False Inr show ?thesis by (simp add: tryBlock_def)
  qed
qed

lemma settle_service:
  assumes "serviceFailure fetched"
  shows "analyzeHeadline_settle h clock fetched s =
         s\<lparr>errorMsg := Some backendErrorMsg, isLoading := False\<rparr>"
  by (simp add: analyzeHeadline_settle_def tryBlock_service [OF assms])

lemma settle_thrown:
  assumes "isl (tryBlock h clock fetched s)"
  shows "analyzeHeadline_settle h clock fetched s =
         s\<lparr>errorMsg := Some unreachableMsg, isLoading := False\<rparr>"
  using assms by (cases "tryBlock h clock fetched s") (simp_all add: analyzeHeadline_settle_def)

lemma messages_distinct: "backendErrorMsg \<noteq> unreachableMsg"
  by (simp add: backendErrorMsg_def unreachableMsg_def)

lemma get_of_truthy:
  assumes "truthy v"
  shows "\<exists>w. get v k = Inr w"
  using assms by (cases v) simp_all

lemma adoptSummary_returns:
  assumes "normalizeArticles h clock data = Inr rs"
  shows "\<exists>sm. adoptSummary data = Inr sm"
proof -
  from assms obtain v where "get data ''articles'' = Inr v"
    by (auto simp: normalizeArticles_def bind_eq_Inr)
  then have "data \<noteq> JUndefined" "data \<noteq> JNull" by auto
  then obtain sm where sm: "get data ''summary'' = Inr sm"
    by (cases data) simp_all
  show ?thesis
  proof (cases "truthy sm")
    case True
    from get_of_truthy [OF True, of "''positive''"] get_of_truthy [OF True, of "''negative''"]
      get_of_truthy [OF True, of "''neutral''"]
    show ?thesis using sm True by (auto simp: adoptSummary_def)
  next
    case False
    then show ?thesis using sm by (simp add: adoptSummary_def)
  qed
qed

lemma loaded_query: "trim (headlineInput loadedState) \<noteq> []"
  by code_simp

lemma serverError_service: "serviceFailure serverError"
  by code_simp

lemma unreachable_transport: "transportFailure unreachable"
  by code_simp

text \<open>
  Claim C2, as the code has it. When a query that was sent fails (the service
  reports a failure, the transport fails, or the reply makes the page throw), the
  summary is what it was before the call: neither failure path writes it.
\<close>

theorem failed_query_keeps_summary:
  assumes "trim (headlineInput s) \<noteq> []"
    and "serviceFailure fetched \<or> transportFailure fetched
         \<or> isl (tryBlock h clock fetched (s\<lparr>isLoading := True, errorMsg := None\<rparr>))"
  shows "summary (analyzeHeadline h clock fetched s) = summary s"
proof -
  let ?s1 = "s\<lparr>isLoading := True, errorMsg := None\<rparr>"
  from assms(2) consider "serviceFailure fetched" | "isl (tryBlock h clock fetched ?s1)"
    using tryBlock_transport by blast
  then show ?thesis
  proof cases
    case 1
    then show ?thesis by (simp add: analyzeHeadline_sent [OF assms(1)] settle_service)
  next
    case 2
    then show ?thesis by (simp add: analyzeHeadline_sent [OF assms(1)] settle_thrown)
  qed
qed

text \<open>
  The theorem at a state that holds a summary, with a reply of the service that
  reports a failure.
\<close>

theorem failed_query_keeps_summary_witness:
  "trim (headlineInput loadedState) \<noteq> [] \<and>
   (serviceFailure serverError \<or> transportFailure serverError
     \<or> isl (tryBlock sampleHost sampleClock serverError (loadedState\<lparr>isLoading := True, errorMsg := None\<rparr>))) \<and>
   summary (analyzeHeadline sampleHost sampleClock serverError loadedState) = summary loadedState"
proof -
  have a: "serviceFailure serverError \<or> transportFailure serverError
     \<or> isl (tryBlock sampleHost sampleClock serverError (loadedState\<lparr>isLoading := True, errorMsg := None\<rparr>))"
    using serverError_service by simp
  show ?thesis
    using failed_query_keeps_summary [OF loaded_query a] loaded_query a by blast
qed

text \<open>
  Claim C2 as stated fails: after that failed query the summary is still there,
  not absent.
\<close>

theorem failed_query_summary_counterexample:
  "summary (analyzeHeadline sampleHost sampleClock serverError loadedState) =
     Some \<lparr>positive = JNum (Fin 1), negative = JNum (Fin 1), neutral = JNum (Fin 0)\<rparr>"
  by code_simp

text \<open>
  Claim C5. When a query that was sent fails, the results are what they were
  before the call. A service-reported failure sets the error message to the
  backend-error text; a transport failure, and any exception raised while the reply
  is processed, sets it to the service-unreachable text; the two texts differ.
\<close>

theorem failed_query_keeps_results:
  assumes "trim (headlineInput s) \<noteq> []"
  shows "(serviceFailure fetched \<longrightarrow>
            results (analyzeHeadline h clock fetched s) = results s \<and>
            errorMsg (analyzeHeadline h clock fetched s) = Some backendErrorMsg) \<and>
         (transportFailure fetched
            \<or> isl (tryBlock h clock fetched (s\<lparr>isLoading := True, errorMsg := None\<rparr>)) \<longrightarrow>
            results (analyzeHeadline h clock fetched s) = results s \<and>
            errorMsg (analyzeHeadline h clock fetched s) = Some unreachableMsg) \<and>
         backendErrorMsg \<noteq> unreachableMsg"
proof (intro conjI impI)
  let ?s1 = "s\<lparr>isLoading := True, errorMsg := None\<rparr>"
  show "backendErrorMsg \<noteq> unreachableMsg" by (rule messages_distinct)
  {
    assume "serviceFailure fetched"
    then have e: "analyzeHeadline h clock fetched s =
        ?s1\<lparr>errorMsg := Some backendErrorMsg, isLoading := False\<rparr>"
      by (simp add: analyzeHeadline_sent [OF assms] settle_service)
    show "results (analyzeHeadline h clock fetched s) = results s" by (simp add: e)
    show "errorMsg (analyzeHeadline h clock fetched s) = Some backendErrorMsg" by (simp add: e)
  }
  {
    assume "transportFailure fetched \<or> isl (tryBlock h clock fetched ?s1)"
    then have "isl (tryBlock h clock fetched ?s1)" using tryBlock_transport by blast
    then have e: "analyzeHeadline h clock fetched s =
        ?s1\<lparr>errorMsg := Some unreachableMsg, isLoading := False\<rparr>"
      by (simp add: analyzeHeadline_sent [OF assms] settle_thrown)
    show "results (analyzeHeadline h clock fetched s) = results s" by (simp add: e)
    show "errorMsg (analyzeHeadline h clock fetched s) = Some unreachableMsg" by (simp add: e)
  }
qed

text \<open>
  The theorem at a reply that reports a failure and at a request that could not be
  delivered.
\<close>

theorem failed_query_keeps_results_witness:
  "trim (headlineInput loadedState) \<noteq> [] \<and>
   serviceFailure serverError \<and> transportFailure unreachable \<and>
   results (analyzeHeadline sampleHost sampleClock serverError loadedState) = results loadedState \<and>
   errorMsg (analyzeHeadline sampleHost sampleClock serverError loadedState) = Some backendErrorMsg \<and>
   results (analyzeHeadline sampleHost sampleClock unreachable loadedState) = results loadedState \<and>
   errorMsg (analyzeHeadline sampleHost sampleClock unreachable loadedState) = Some unreachableMsg"
  using failed_query_keeps_results [OF loaded_query, of serverError sampleHost sampleClock]
    failed_query_keeps_results [OF loaded_query, of unreachable sampleHost sampleClock]
    loaded_query serverError_service unreachable_transport by blast

lemma click_while_busy: "isLoading s \<Longrightarrow> dispatch Click s = (s, None)"
  by simp

lemma enter_sends:
  assumes "trim (headlineInput s) \<noteq> []"
  shows "snd (dispatch (KeyDown ''Enter'') s) = Some \<lparr>query = trim (headlineInput s), limit = 10\<rparr>"
  by (simp add: begin_sent [OF assms])

text \<open>
  Claim C6 at a state whose busy flag is set. A click on the button changes
  nothing and sends nothing. The \<^verbatim>\<open>Enter\<close> key does send a second request:
  \<^verbatim>\<open>onKeyDown\<close> calls \<^verbatim>\<open>analyzeHeadline\<close> without looking at
  \<^verbatim>\<open>isLoading\<close>, and \<^verbatim>\<open>analyzeHeadline\<close> does not look at it either.
\<close>

theorem enter_while_busy_sends_request:
  "isLoading busyState \<and>
   dispatch Click busyState = (busyState, None) \<and>
   dispatch (KeyDown ''Enter'') busyState =
     (busyState, Some \<lparr>query = ''Tesla stock crashes 15%'', limit = 10\<rparr>)"
  by code_simp

section \<open>Properties of the view projection\<close>

subsection \<open>When the sort has a result\<close>

lemma compare_sortKey:
  assumes "comparable h sb a" and "comparable h sb b"
  shows "compare h sb a b = Inr (Some (sortKey h sb a - sortKey h sb b))"
proof (cases sb)
  case SortSentiment
  from assms SortSentiment obtain m n where
    "rank h (sentiment a) = Inr (Some m)" "rank h (sentiment b) = Inr (Some n)"
    by (auto simp: comparable_def split: sum.splits option.splits)
  with SortSentiment show ?thesis
    by (simp add: compare_def sortKey_def minus_js_def)
next
  case SortDate
  with assms show ?thesis
    by (auto simp: compare_def sortKey_def minus_js_def comparable_def)
next
  case SortTime
  with assms show ?thesis
    by (auto simp: compare_def sortKey_def minus_js_def comparable_def)
qed



lemma insert_js_insort_key:
  assumes "comparable h sb x" and "\<forall>y\<in>set ys. comparable h sb y"
  shows "insert_js (compare h sb) x ys = Inr (Some (insort_key (sortKey h sb) x ys))"
  using assms(2)
proof (induction ys)
  case Nil
  show ?case by simp
next
  case (Cons y ys)
  then have y: "comparable h sb y"
    and IH: "insert_js (compare h sb) x ys = Inr (Some (insort_key (sortKey h sb) x ys))"
    by simp_all
  show ?case
    by (simp add: compare_sortKey [OF assms(1) y] IH)
qed

lemma sort_js_sort_key:
  assumes "\<forall>x\<in>set xs. comparable h sb x"
  shows "sort_js (compare h sb) xs = Inr (Some (sort_key (sortKey h sb) xs))"
  using assms
proof (induction xs)
  case Nil
  show ?case by simp
next
  case (Cons x xs)
  then have x: "comparable h sb x"
    and xs: "\<forall>y\<in>set (sort_key (sortKey h sb) xs). comparable h sb y"
    and IH: "sort_js (compare h sb) xs = Inr (Some (sort_key (sortKey h sb) xs))"
    by simp_all
  show ?case
    by (simp add: IH insert_js_insort_key [OF x xs])
qed






lemma sortedResults_sort_key:
  assumes "\<forall>r\<in>set (filteredResults fb rs). comparable h sb r"
  shows "sortedResults h fb sb rs = Inr (Some (sort_key (sortKey h sb) (filteredResults fb rs)))"
  using assms by (simp add: sortedResults_def sort_js_sort_key)




lemma declared_comparable:
  assumes "declaredSentiment (sentiment r)" and "getTime (timestamp r) \<noteq> None"
  shows "comparable h sb r"
  using assms
  by (cases sb) (auto simp: comparable_def declaredSentiment_def rank_def or_else_def bind_def)


lemma object_label_stored:
  "normalizeArticles sampleHost sampleClock objectLabelPayload = Inr objectLabelResults"
  by code_simp

lemma bad_date_pair_stored:
  "normalizeArticles sampleHost sampleClock badDatePairPayload = Inr badDatePairResults"
  by code_simp

lemma inherited_name_stored:
  "normalizeArticles sampleHost sampleClock inheritedNamePayload = Inr inheritedNameResults"
  by code_simp

subsection \<open>Idempotence\<close>





subsection \<open>Sort by sentiment\<close>

text \<open>
  The numbers the page looks up: 3, 2 and 1 for the known labels, 2 for an absent
  sentiment, 0 for any other label that \<^verbatim>\<open>Object.prototype\<close> does not define,
  and no number for a label that it defines.
\<close>

lemma rank_known:
  "rank h (JStr ''positive'') = Inr (Some 3)"
  "rank h (JStr ''neutral'') = Inr (Some 2)"
  "rank h JNull = Inr (Some 2)"
  "rank h JUndefined = Inr (Some 2)"
  "rank h (JStr ''negative'') = Inr (Some 1)"
  by (simp_all add: rank_def or_else_def)

lemma rank_other_label:
  assumes "s \<noteq> []" and "s \<notin> {''positive'', ''neutral'', ''negative''}"
    and "s \<notin> set Object_prototype_names"
  shows "rank h (JStr s) = Inr (Some 0)"
  using assms by (simp add: rank_def or_else_def)

lemma rank_inherited_name:
  assumes "s \<in> set Object_prototype_names"
  shows "rank h (JStr s) = Inr None"
  using assms by (auto simp: rank_def or_else_def Object_prototype_names_def)

lemma sortKey_rankOf:
  assumes "comparable h SortSentiment r"
  shows "sortKey h SortSentiment r = - rankOf h (sentiment r)"
  using assms by (auto simp: comparable_def sortKey_def rankOf_def split: sum.splits option.splits)

lemma rankOf_le_3: "rankOf h v \<le> 3"
  by (auto simp: rankOf_def rank_def bind_def split: sum.splits option.splits if_splits)

text \<open>On the declared sentiments this is the order of the specification.\<close>

lemma rankOf_declared:
  assumes "declaredSentiment v"
  shows "rankOf h v = int (level v)"
  using assms by (auto simp: declaredSentiment_def rankOf_def rank_def or_else_def level_def)

text \<open>
  Where every record that passes the filter has a number, the sort by sentiment
  returns these records themselves in descending order of that number, so that no
  other record precedes a positive one, and records of equal number keep their
  input order.
\<close>

lemma sentiment_sort_ranked:
  assumes "\<forall>r\<in>set (filteredResults f R). comparable h SortSentiment r"
  shows "\<exists>P. sortedResults h f SortSentiment R = Inr (Some P) \<and>
     mset P = mset (filteredResults f R) \<and>
     sorted_wrt (\<lambda>a b. rankOf h (sentiment b) \<le> rankOf h (sentiment a)) P \<and>
     (\<forall>i j. i < j \<and> j < length P \<and> rankOf h (sentiment (P ! j)) = 3
        \<longrightarrow> rankOf h (sentiment (P ! i)) = 3) \<and>
     (\<forall>n. filter (\<lambda>r. rankOf h (sentiment r) = n) P
          = filter (\<lambda>r. rankOf h (sentiment r) = n) (filteredResults f R))"
proof -
  let ?K = "sortKey h SortSentiment"
  let ?F = "filteredResults f R"
  let ?P = "sort_key ?K ?F"
  have key: "?K r = - rankOf h (sentiment r)" if "r \<in> set ?F" for r
    using assms that by (simp add: sortKey_rankOf)
  have 1: "sortedResults h f SortSentiment R = Inr (Some ?P)"
    by (rule sortedResults_sort_key [OF assms])
  have 2: "mset ?P = mset ?F" by simp
  have "sorted (map ?K ?P)" by (rule sorted_sort_key)
  then have "sorted_wrt (\<lambda>a b. ?K a \<le> ?K b) ?P"
    by (simp add: sorted_map)
  then have 3: "sorted_wrt (\<lambda>a b. rankOf h (sentiment b) \<le> rankOf h (sentiment a)) ?P"
  proof (rule sorted_wrt_mono_rel [rotated])
    fix a b assume "a \<in> set ?P" "b \<in> set ?P" "?K a \<le> ?K b"
    then show "rankOf h (sentiment b) \<le> rankOf h (sentiment a)"
      using key [of a] key [of b] by simp
  qed
  have 4: "\<forall>i j. i < j \<and> j < length ?P \<and> rankOf h (sentiment (?P ! j)) = 3
        \<longrightarrow> rankOf h (sentiment (?P ! i)) = 3"
  proof (intro allI impI)
    fix i j assume a: "i < j \<and> j < length ?P \<and> rankOf h (sentiment (?P ! j)) = 3"
    from 3 have "\<forall>i j. i < j \<longrightarrow> j < length ?P \<longrightarrow>
         rankOf h (sentiment (?P ! j)) \<le> rankOf h (sentiment (?P ! i))"
      by (simp only: sorted_wrt_iff_nth_less)
    with a have "rankOf h (sentiment (?P ! j)) \<le> rankOf h (sentiment (?P ! i))"
      by blast
    with a show "rankOf h (sentiment (?P ! i)) = 3"
      using rankOf_le_3 [of h "sentiment (?P ! i)"] by simp
  qed
  have 5: "filter (\<lambda>r. rankOf h (sentiment r) = n) ?P = filter (\<lambda>r. rankOf h (sentiment r) = n) ?F" for n
  proof -
    have "filter (\<lambda>r. rankOf h (sentiment r) = n) ?P = filter (\<lambda>r. ?K r = - n) ?P"
      by (rule filter_cong) (auto simp: key)
    also have "\<dots> = filter (\<lambda>r. ?K r = - n) ?F" by (rule sort_key_stable)
    also have "\<dots> = filter (\<lambda>r. rankOf h (sentiment r) = n) ?F"
      by (rule filter_cong) (auto simp: key)
    finally show ?thesis .
  qed
  from 1 2 3 4 5 show ?thesis by blast
qed


section \<open>Properties of the export\<close>

subsection \<open>What the export writes\<close>

lemma exportResults_empty: "exportResults h [] = Inr None"
  by (simp add: exportResults_def)

lemma sequence_Inr: "sequence ms = Inr xs \<longleftrightarrow> ms = map Inr xs"
proof (induction ms arbitrary: xs)
  case Nil
  show ?case by auto
next
  case (Cons m ms)
  show ?case
  proof (cases m)
    case (Inl e)
    then show ?thesis by auto
  next
    case (Inr x)
    then show ?thesis using Cons by (cases xs) (auto simp: bind_eq_Inr)
  qed
qed

lemma sequence_map_Inr:
  assumes "\<forall>x\<in>set xs. f x = Inr (g x)"
  shows "sequence (map f xs) = Inr (map g xs)"
  using assms by (simp add: sequence_Inr)

lemma replaceQuotes_doubled: "replaceQuotes (JStr t) = Inr (doubled t)"
  by (induction t) (simp_all add: replaceQuotes_def)

lemma quoted_string: "quoted (JStr t) = Inr (JStr ([dquote] @ doubled t @ [dquote]))"
  by (simp add: quoted_def replaceQuotes_doubled)

lemma quoted_Inr:
  assumes "quoted v = Inr q"
  shows "is_string v"
  using assms by (cases v) (simp_all add: quoted_def replaceQuotes_def is_string_def)

lemma string_textOf: "is_string v \<Longrightarrow> v = JStr (textOf v)"
  by (cases v) (simp_all add: is_string_def textOf_def)

lemma or_else_defined: "or_else v (JStr []) \<noteq> JUndefined \<and> or_else v (JStr []) \<noteq> JNull"
  by (cases v) (auto simp: or_else_def)

lemma fieldText_falsy: "\<not> truthy v \<Longrightarrow> fieldText h v = []"
  by (simp add: fieldText_def or_else_def)

text \<open>The text \<^verbatim>\<open>join\<close> gives for one element of a row.\<close>

lemma element_text:
  assumes "\<not> isl (ToString h (or_else v (JStr [])))"
  shows "(if or_else v (JStr []) = JUndefined \<or> or_else v (JStr []) = JNull then Inr []
          else ToString h (or_else v (JStr []))) = Inr (fieldText h v)"
  using assms or_else_defined [of v]
  by (cases "ToString h (or_else v (JStr []))") (simp_all add: fieldText_def)

lemma csvRow_exportable:
  assumes "exportable h r"
  shows "csvRow h r =
     Inr [JStr ([dquote] @ doubled (textOf (headline r)) @ [dquote]),
          or_else (sentiment r) (JStr []),
          JStr (toLocaleDateString h (getTime (timestamp r))),
          JStr (toLocaleTimeString h (getTime (timestamp r))),
          or_else (link r) (JStr []),
          JStr ([dquote] @ doubled (textOf (explanation r)) @ [dquote])]"
proof -
  from assms have hs: "headline r = JStr (textOf (headline r))"
    and es: "explanation r = JStr (textOf (explanation r))"
    by (simp_all add: exportable_def string_textOf)
  have "quoted (headline r) = Inr (JStr ([dquote] @ doubled (textOf (headline r)) @ [dquote]))"
    by (subst hs) (rule quoted_string)
  moreover have "quoted (explanation r) = Inr (JStr ([dquote] @ doubled (textOf (explanation r)) @ [dquote]))"
    by (subst es) (rule quoted_string)
  ultimately show ?thesis by (simp add: csvRow_def)
qed

lemma joinRow_exportable:
  assumes "exportable h r" and "csvRow h r = Inr row"
  shows "joinRow h row = Inr (join '','' (specFields h r))"
proof -
  from assms(1) have s: "\<not> isl (ToString h (or_else (sentiment r) (JStr [])))"
    and l: "\<not> isl (ToString h (or_else (link r) (JStr [])))"
    by (simp_all add: exportable_def)
  from assms(2) csvRow_exportable [OF assms(1)] have row: "row =
        [JStr ([dquote] @ doubled (textOf (headline r)) @ [dquote]),
          or_else (sentiment r) (JStr []),
          JStr (toLocaleDateString h (getTime (timestamp r))),
          JStr (toLocaleTimeString h (getTime (timestamp r))),
          or_else (link r) (JStr []),
          JStr ([dquote] @ doubled (textOf (explanation r)) @ [dquote])]"
    by simp
  show ?thesis
    by (simp add: joinRow_def row element_text [OF s] element_text [OF l] specFields_def)
qed

lemma joinRow_header: "joinRow h csvHeader = Inr (join '','' specHeader)"
  by (simp add: joinRow_def csvHeader_def specHeader_def)

lemma exportResults_exportable:
  assumes "rs \<noteq> []" and "\<forall>r\<in>set rs. exportable h r"
  shows "exportResults h rs =
     Inr (Some (join [newline] (join '','' specHeader # map (\<lambda>r. join '','' (specFields h r)) rs)))"
proof -
  let ?row = "\<lambda>r. [JStr ([dquote] @ doubled (textOf (headline r)) @ [dquote]),
          or_else (sentiment r) (JStr []),
          JStr (toLocaleDateString h (getTime (timestamp r))),
          JStr (toLocaleTimeString h (getTime (timestamp r))),
          or_else (link r) (JStr []),
          JStr ([dquote] @ doubled (textOf (explanation r)) @ [dquote])]"
  have rows: "sequence (map (csvRow h) rs) = Inr (map ?row rs)"
    by (rule sequence_map_Inr) (simp add: assms(2) csvRow_exportable)
  have "\<forall>r\<in>set rs. joinRow h (?row r) = Inr (join '','' (specFields h r))"
    using assms(2) csvRow_exportable joinRow_exportable by blast
  then have "map (joinRow h) (map ?row rs) = map Inr (map (\<lambda>r. join '','' (specFields h r)) rs)"
    by simp
  then have ls: "sequence (map (joinRow h) (csvHeader # map ?row rs))
        = Inr (join '','' specHeader # map (\<lambda>r. join '','' (specFields h r)) rs)"
    by (simp only: sequence_Inr list.map joinRow_header)
  have "exportResults h rs =
      bind (sequence (map (csvRow h) rs)) (\<lambda>rows.
        bind (sequence (map (joinRow h) (csvHeader # rows))) (\<lambda>ls.
          Inr (Some (join [newline] ls))))"
    using assms(1) by (simp only: exportResults_def if_False)
  also have "\<dots> = bind (sequence (map (joinRow h) (csvHeader # map ?row rs)))
       (\<lambda>ls. Inr (Some (join [newline] ls)))"
    by (simp only: rows bind_Inr)
  also have "\<dots> = Inr (Some (join [newline] (join '','' specHeader # map (\<lambda>r. join '','' (specFields h r)) rs)))"
    by (simp only: ls bind_Inr)
  finally show ?thesis .
qed

text \<open>Conversely, an export that produces a text had only such records to write.\<close>

lemma csvRow_Inr:
  assumes "csvRow h r = Inr row"
  shows "is_string (headline r) \<and> is_string (explanation r) \<and>
         (\<exists>hq eq. row = [hq, or_else (sentiment r) (JStr []),
            JStr (toLocaleDateString h (getTime (timestamp r))),
            JStr (toLocaleTimeString h (getTime (timestamp r))),
            or_else (link r) (JStr []), eq])"
proof -
  from assms obtain hq eq where q: "quoted (headline r) = Inr hq" "quoted (explanation r) = Inr eq"
    and row: "row = [hq, or_else (sentiment r) (JStr []),
            JStr (toLocaleDateString h (getTime (timestamp r))),
            JStr (toLocaleTimeString h (getTime (timestamp r))),
            or_else (link r) (JStr []), eq]"
    unfolding csvRow_def bind_eq_Inr by auto
  from q quoted_Inr row show ?thesis by blast
qed

lemma joinRow_Inr:
  assumes "joinRow h [a, b, c, d, e, f] = Inr t"
  shows "\<not> isl (if b = JUndefined \<or> b = JNull then Inr [] else ToString h b) \<and>
         \<not> isl (if e = JUndefined \<or> e = JNull then Inr [] else ToString h e)"
proof -
  from assms obtain ss where
    "sequence (map (\<lambda>v. if v = JUndefined \<or> v = JNull then Inr [] else ToString h v) [a, b, c, d, e, f]) = Inr ss"
    by (auto simp: joinRow_def bind_eq_Inr)
  then have "map (\<lambda>v. if v = JUndefined \<or> v = JNull then Inr [] else ToString h v) [a, b, c, d, e, f]
      = map Inr ss"
    by (simp only: sequence_Inr)
  then obtain s1 s4 where "(if b = JUndefined \<or> b = JNull then Inr [] else ToString h b) = Inr s1"
    "(if e = JUndefined \<or> e = JNull then Inr [] else ToString h e) = Inr s4"
    by (cases ss rule: list.exhaust) (auto simp: map_eq_Cons_conv)
  then show ?thesis by simp
qed

lemma exportResults_Some:
  assumes "exportResults h rs = Inr (Some csv)"
  shows "rs \<noteq> [] \<and> (\<forall>r\<in>set rs. exportable h r)"
proof
  show ne: "rs \<noteq> []" using assms by (auto simp: exportResults_def)
  from assms ne obtain rows ls where rows: "sequence (map (csvRow h) rs) = Inr rows"
    and ls: "sequence (map (joinRow h) (csvHeader # rows)) = Inr ls"
    by (auto simp: exportResults_def bind_eq_Inr)
  from rows have m: "map (csvRow h) rs = map Inr rows" by (simp only: sequence_Inr)
  from ls have j: "map (joinRow h) (csvHeader # rows) = map Inr ls" by (simp only: sequence_Inr)
  show "\<forall>r\<in>set rs. exportable h r"
  proof
    fix r assume "r \<in> set rs"
    then obtain i where i: "i < length rs" "rs ! i = r" by (auto simp: in_set_conv_nth)
    from m have len: "length rows = length rs" by (metis length_map)
    from m i have row: "csvRow h r = Inr (rows ! i)"
      by (metis length_map nth_map)
    from j i len have "joinRow h (rows ! i) = Inr (ls ! Suc i)"
      by (metis length_Cons length_map not_less_eq nth_Cons_Suc nth_map)
    with csvRow_Inr [OF row] obtain hq eq where
      st: "is_string (headline r)" "is_string (explanation r)"
      and jr: "joinRow h [hq, or_else (sentiment r) (JStr []),
            JStr (toLocaleDateString h (getTime (timestamp r))),
            JStr (toLocaleTimeString h (getTime (timestamp r))),
            or_else (link r) (JStr []), eq] = Inr (ls ! Suc i)"
      by auto
    from joinRow_Inr [OF jr] or_else_defined [of "sentiment r"] or_else_defined [of "link r"]
    have "\<not> isl (ToString h (or_else (sentiment r) (JStr [])))"
      "\<not> isl (ToString h (or_else (link r) (JStr [])))"
      by simp_all
    with st show "exportable h r" by (simp add: exportable_def)
  qed
qed

lemma declared_exportable:
  assumes "declared r"
  shows "exportable h r"
proof -
  from assms have "sentiment r \<in> {JStr ''positive'', JStr ''negative'', JStr ''neutral'', JNull}"
    by (auto simp: declared_def)
  then have s: "\<not> isl (ToString h (or_else (sentiment r) (JStr [])))"
    by (auto simp: or_else_def)
  from assms have "link r = JUndefined \<or> is_string (link r)" by (simp add: declared_def)
  then have l: "\<not> isl (ToString h (or_else (link r) (JStr [])))"
    by (cases "link r") (auto simp: or_else_def is_string_def)
  from assms s l show ?thesis by (simp add: exportable_def declared_def)
qed

subsection \<open>What the reader makes of it\<close>

lemma special_chars: "dquote \<noteq> comma" "dquote \<noteq> newline" "comma \<noteq> newline"
  by (simp_all add: dquote_def comma_def newline_def)

lemma scan_doubled: "scan Quoted f row (doubled t @ cs) = scan Quoted (f @ t) row cs"
  by (induction t arbitrary: f) simp_all

lemma scan_quoted_field:
  "scan FieldStart f row ([dquote] @ doubled t @ [dquote] @ cs) = scan QuoteSeen t row cs"
  by (simp add: scan_doubled)

lemma scan_plain:
  assumes "plain p"
  shows "scan Unquoted f row (p @ cs) = scan Unquoted (f @ p) row cs"
  using assms by (induction p arbitrary: f) (simp_all add: plain_def)

lemma scan_plain_comma:
  assumes "plain p"
  shows "scan FieldStart [] row (p @ comma # cs) = scan FieldStart [] (row @ [p]) cs"
proof (cases p)
  case Nil
  then show ?thesis using special_chars by simp
next
  case (Cons c q)
  with assms have c: "c \<noteq> dquote" "c \<noteq> comma" "c \<noteq> newline" and q: "plain q"
    by (simp_all add: plain_def)
  have "scan FieldStart [] row (p @ comma # cs) = scan Unquoted [c] row (q @ comma # cs)"
    using Cons c by simp
  also have "\<dots> = scan Unquoted ([c] @ q) row (comma # cs)" by (rule scan_plain [OF q])
  also have "\<dots> = scan FieldStart [] (row @ [p]) cs" using Cons by simp
  finally show ?thesis .
qed


lemma scan_header:
  "scan FieldStart [] [] (join '','' specHeader @ newline # cs) = specHeader # scan FieldStart [] [] cs"
  by (simp add: specHeader_def dquote_def comma_def newline_def)


lemma scan_row:
  assumes "plainFields h r"
  shows "scan FieldStart [] [] (join '','' (specFields h r) @ cs) =
         scan QuoteSeen (textOf (explanation r)) (butlast (parsedFields h r)) cs"
proof -
  let ?t = "textOf (headline r)" and ?e = "textOf (explanation r)"
  let ?s1 = "fieldText h (sentiment r)" and ?s2 = "toLocaleDateString h (getTime (timestamp r))"
  let ?s3 = "toLocaleTimeString h (getTime (timestamp r))" and ?s4 = "fieldText h (link r)"
  have p: "plain ?s1" "plain ?s2" "plain ?s3" "plain ?s4"
    using assms by (simp_all add: plainFields_def)
  have "join '','' (specFields h r) @ cs =
        [dquote] @ doubled ?t @ [dquote] @
          (comma # ?s1 @ comma # ?s2 @ comma # ?s3 @ comma # ?s4 @ comma #
             [dquote] @ doubled ?e @ [dquote] @ cs)"
    by (simp add: specFields_def comma_def)
  also have "scan FieldStart [] [] \<dots> =
        scan QuoteSeen ?t [] (comma # ?s1 @ comma # ?s2 @ comma # ?s3 @ comma # ?s4 @ comma #
             [dquote] @ doubled ?e @ [dquote] @ cs)"
    by (rule scan_quoted_field)
  also have "\<dots> = scan FieldStart [] [?t] (?s1 @ comma # ?s2 @ comma # ?s3 @ comma # ?s4 @ comma #
             [dquote] @ doubled ?e @ [dquote] @ cs)"
    using special_chars by simp
  also have "\<dots> = scan FieldStart [] [?t, ?s1] (?s2 @ comma # ?s3 @ comma # ?s4 @ comma #
             [dquote] @ doubled ?e @ [dquote] @ cs)"
    using scan_plain_comma [OF p(1), of "[?t]"] by simp
  also have "\<dots> = scan FieldStart [] [?t, ?s1, ?s2] (?s3 @ comma # ?s4 @ comma #
             [dquote] @ doubled ?e @ [dquote] @ cs)"
    using scan_plain_comma [OF p(2), of "[?t, ?s1]"] by simp
  also have "\<dots> = scan FieldStart [] [?t, ?s1, ?s2, ?s3] (?s4 @ comma #
             [dquote] @ doubled ?e @ [dquote] @ cs)"
    using scan_plain_comma [OF p(3), of "[?t, ?s1, ?s2]"] by simp
  also have "\<dots> = scan FieldStart [] [?t, ?s1, ?s2, ?s3, ?s4] ([dquote] @ doubled ?e @ [dquote] @ cs)"
    using scan_plain_comma [OF p(4), of "[?t, ?s1, ?s2, ?s3]"] by simp
  also have "\<dots> = scan QuoteSeen ?e [?t, ?s1, ?s2, ?s3, ?s4] cs"
    by (rule scan_quoted_field)
  finally show ?thesis by (simp add: parsedFields_def)
qed

lemma parsedFields_snoc:
  "butlast (parsedFields h r) @ [textOf (explanation r)] = parsedFields h r"
  by (simp add: parsedFields_def)

lemma scan_rows:
  assumes "rs \<noteq> []" and "\<forall>r\<in>set rs. plainFields h r"
  shows "scan FieldStart [] [] (join [newline] (map (\<lambda>r. join '','' (specFields h r)) rs))
         = map (parsedFields h) rs"
  using assms
proof (induction rs rule: list_nonempty_induct)
  case (single r)
  then have "scan FieldStart [] [] (join '','' (specFields h r) @ []) =
         scan QuoteSeen (textOf (explanation r)) (butlast (parsedFields h r)) []"
    by (intro scan_row) simp_all
  then show ?case by (simp add: parsedFields_snoc)
next
  case (cons r rs)
  from cons.hyps obtain r' rs' where rs: "rs = r' # rs'" by (cases rs) auto
  let ?more = "join [newline] (map (\<lambda>r. join '','' (specFields h r)) rs)"
  have "join [newline] (map (\<lambda>r. join '','' (specFields h r)) (r # rs))
        = join '','' (specFields h r) @ newline # ?more"
    by (simp add: rs)
  moreover have "scan FieldStart [] [] (join '','' (specFields h r) @ newline # ?more) =
         scan QuoteSeen (textOf (explanation r)) (butlast (parsedFields h r)) (newline # ?more)"
    using cons.prems by (intro scan_row) simp_all
  moreover have "scan QuoteSeen (textOf (explanation r)) (butlast (parsedFields h r)) (newline # ?more)
        = parsedFields h r # scan FieldStart [] [] ?more"
    using special_chars by (simp add: parsedFields_snoc)
  moreover have "scan FieldStart [] [] ?more = map (parsedFields h) rs"
    using cons.IH cons.prems by simp
  ultimately show ?case by simp
qed



lemma parse_all_rows:
  assumes "rs \<noteq> []" and "list_all (plainFields h) rs"
  shows "parseCsv (join [newline] (join '','' specHeader # map (\<lambda>r. join '','' (specFields h r)) rs))
       = specHeader # map (parsedFields h) rs"
proof -
  from assms(1) obtain r rs' where rs: "rs = r # rs'" by (cases rs) auto
  have ok: "\<forall>r\<in>set rs. plainFields h r"
    using assms(2) by (simp add: list_all_iff)
  have "join [newline] (join '','' specHeader # map (\<lambda>r. join '','' (specFields h r)) rs)
      = join '','' specHeader @ newline # join [newline] (map (\<lambda>r. join '','' (specFields h r)) rs)"
    by (simp add: rs)
  then show ?thesis
    by (simp only: parseCsv_def scan_header scan_rows [OF assms(1) ok])
qed

lemma quoted_stored:
  "normalizeArticles sampleHost sampleClock quotedPayload = Inr quotedResults"
  by code_simp




lemma sample_stored_exportable: "\<forall>r\<in>set sampleResults. exportable sampleHost r"
  by code_simp

lemma sample_exported:
  "exportResults sampleHost sampleResults =
     Inr (Some (join [newline]
       [''Headline,Sentiment,Date,Time,Link,Explanation'',
        [dquote] @ ''Tesla stock crashes 15%'' @ [dquote] @ '',negative,1/1/2024,12:00:00 AM,,''
          @ [dquote] @ ''Polarity score: -0.812'' @ [dquote],
        [dquote] @ ''Gold prices surge after Fed cuts rates'' @ [dquote]
          @ '',positive,1/1/2024,12:00:00 AM,https://example.com/gold,''
          @ [dquote] @ ''Strong positive wording'' @ [dquote],
        [dquote] @ ''Markets flat'' @ [dquote] @ '',neutral,1/1/2024,12:00:00 AM,,''
          @ [dquote] @ ''Polarity score: '' @ [dquote]]))"
  by code_simp

text \<open>The normaliser never stores a falsy sentiment.\<close>

lemma stored_sentiment_truthy:
  assumes "mapArticle h now a = Inr r"
  shows "truthy (sentiment r)"
  using mapArticle_sentiment [OF assms] by auto

subsection \<open>Round trip\<close>




subsection \<open>Header and rows\<close>

text \<open>
  Claim C10, as the code has it. For every non-empty sequence of records that can
  be exported, the exported text is the header line followed by one line per record,
  in the order of the records, the lines joined by line feeds; the line of a record
  is its six fields joined by commas, where the Sentiment field of a record whose
  sentiment is falsy is empty and the Link field of a record whose link is falsy
  (absent or \<^verbatim>\<open>null\<close>) is empty. When the sentiment, date, time and link texts
  hold no double quote, comma or line feed, a reader gets the header row and one row
  per record. The records the normaliser stores have a truthy sentiment
  (\<open>stored_sentiment_truthy\<close>), so that an empty Sentiment field is never written
  for them.
\<close>

theorem export_header_and_rows:
  assumes "rs \<noteq> []" and "\<forall>r\<in>set rs. exportable h r"
  shows "\<exists>ls. exportResults h rs
        = Inr (Some (join [newline] (''Headline,Sentiment,Date,Time,Link,Explanation'' # ls))) \<and>
     length ls = length rs \<and>
     (\<forall>k<length rs. ls ! k = join '','' (specFields h (rs ! k)) \<and>
        (\<not> truthy (sentiment (rs ! k)) \<longrightarrow> specFields h (rs ! k) ! 1 = []) \<and>
        (\<not> truthy (link (rs ! k)) \<longrightarrow> specFields h (rs ! k) ! 4 = [])) \<and>
     (list_all (plainFields h) rs \<longrightarrow>
        parseCsv (join [newline] (''Headline,Sentiment,Date,Time,Link,Explanation'' # ls))
          = specHeader # map (parsedFields h) rs)"
proof -
  let ?ls = "map (\<lambda>r. join '','' (specFields h r)) rs"
  have hd: "join '','' specHeader = ''Headline,Sentiment,Date,Time,Link,Explanation''"
    by (simp add: specHeader_def)
  have 1: "exportResults h rs
        = Inr (Some (join [newline] (''Headline,Sentiment,Date,Time,Link,Explanation'' # ?ls)))"
    using exportResults_exportable [OF assms, of ] by (simp only: hd)
  have 2: "length ?ls = length rs" by simp
  have 3: "\<forall>k<length rs. ?ls ! k = join '','' (specFields h (rs ! k)) \<and>
        (\<not> truthy (sentiment (rs ! k)) \<longrightarrow> specFields h (rs ! k) ! 1 = []) \<and>
        (\<not> truthy (link (rs ! k)) \<longrightarrow> specFields h (rs ! k) ! 4 = [])"
    by (simp add: specFields_def fieldText_falsy)
  have 4: "list_all (plainFields h) rs \<longrightarrow>
        parseCsv (join [newline] (''Headline,Sentiment,Date,Time,Link,Explanation'' # ?ls))
          = specHeader # map (parsedFields h) rs"
    using parse_all_rows [OF assms(1), of h] by (simp only: hd) blast
  from 1 2 3 4 show ?thesis by blast
qed

text \<open>
  The theorem at the three records stored for the sample reply; the first and the
  third have no link.
\<close>

theorem export_header_and_rows_witness:
  "sampleResults \<noteq> [] \<and> list_all (exportable sampleHost) sampleResults \<and>
   normalizeArticles sampleHost sampleClock samplePayload = Inr sampleResults \<and>
   (\<exists>ls. exportResults sampleHost sampleResults
        = Inr (Some (join [newline] (''Headline,Sentiment,Date,Time,Link,Explanation'' # ls))) \<and>
     length ls = length sampleResults \<and>
     (\<forall>k<length sampleResults. ls ! k = join '','' (specFields sampleHost (sampleResults ! k)) \<and>
        (\<not> truthy (sentiment (sampleResults ! k)) \<longrightarrow> specFields sampleHost (sampleResults ! k) ! 1 = []) \<and>
        (\<not> truthy (link (sampleResults ! k)) \<longrightarrow> specFields sampleHost (sampleResults ! k) ! 4 = [])) \<and>
     (list_all (plainFields sampleHost) sampleResults \<longrightarrow>
        parseCsv (join [newline] (''Headline,Sentiment,Date,Time,Link,Explanation'' # ls))
          = specHeader # map (parsedFields sampleHost) sampleResults)) \<and>
   link (sampleResults ! 0) = JUndefined \<and>
   exportResults sampleHost sampleResults =
     Inr (Some (join [newline]
       [''Headline,Sentiment,Date,Time,Link,Explanation'',
        [dquote] @ ''Tesla stock crashes 15%'' @ [dquote] @ '',negative,1/1/2024,12:00:00 AM,,''
          @ [dquote] @ ''Polarity score: -0.812'' @ [dquote],
        [dquote] @ ''Gold prices surge after Fed cuts rates'' @ [dquote]
          @ '',positive,1/1/2024,12:00:00 AM,https://example.com/gold,''
          @ [dquote] @ ''Strong positive wording'' @ [dquote],
        [dquote] @ ''Markets flat'' @ [dquote] @ '',neutral,1/1/2024,12:00:00 AM,,''
          @ [dquote] @ ''Polarity score: '' @ [dquote]]))"
proof -
  have n: "sampleResults \<noteq> []" by (simp add: sampleResults_def)
  have e: "list_all (exportable sampleHost) sampleResults"
    using sample_stored_exportable by (simp only: list_all_iff)
  have l: "link (sampleResults ! 0) = JUndefined" by (simp add: sampleResults_def)
  from export_header_and_rows [OF n sample_stored_exportable] n e l sample_normalized sample_exported
  show ?thesis by blast
qed

text \<open>
  Claim C10 as stated fails. For an article without title the page stores a record
  whose headline is \<^verbatim>\<open>undefined\<close>, and exporting it throws: no text is
  produced. And with a line feed at the end of a link the text of two records reads
  back as four rows.
\<close>

theorem untitled_article_counterexample:
  "exportOfReply sampleHost sampleClock untitledPayload = Inl TypeError \<and>
   map_sum id (map_option (length \<circ> parseCsv))
     (exportOfReply sampleHost sampleClock lineFeedPayload) = Inr (Some 4)"
  by code_simp

end
